theory Spec2Isabelle
  imports Complex_Main "HOL-Library.AList" "HOL-Library.Word"
begin

section \<open>Python values, errors and containers\<close>

text \<open>
  The module \<^verbatim>\<open>nemo/deploy/nlp/megatrongpt_deployable.py\<close> adapts a Megatron GPT
  checkpoint to the tensor protocol of a Triton server. Every exception the Python can
  raise is a value of \<open>pyerror\<close>; a computation that may raise returns
  \<open>pyerror + 'a\<close>, with \<open>Inl\<close> the exception.
\<close>

datatype pyerror =
  KeyError | IndexError | AttributeError | TypeError | ValueError | UnicodeError | OverflowError
| RuntimeError

text \<open>Python's \<^verbatim>\<open>LookupError\<close> has exactly the subclasses \<^verbatim>\<open>KeyError\<close> and
  \<^verbatim>\<open>IndexError\<close> among the exceptions above.\<close>

fun is_lookup_error :: "pyerror \<Rightarrow> bool" where
  "is_lookup_error KeyError = True"
| "is_lookup_error IndexError = True"
| "is_lookup_error _ = False"

definition and_then :: "pyerror + 'a \<Rightarrow> ('a \<Rightarrow> pyerror + 'b) \<Rightarrow> pyerror + 'b" where
  "and_then r f = (case r of Inl e \<Rightarrow> Inl e | Inr x \<Rightarrow> f x)"

text \<open>A comprehension over a list: the elements are computed in order and the first
  exception ends the comprehension.\<close>

fun sequence :: "(pyerror + 'a) list \<Rightarrow> pyerror + 'a list" where
  "sequence [] = Inr []"
| "sequence (r # rs) = and_then r (\<lambda>y. and_then (sequence rs) (\<lambda>ys. Inr (y # ys)))"

definition for_each :: "('a \<Rightarrow> pyerror + 'b) \<Rightarrow> 'a list \<Rightarrow> pyerror + 'b list" where
  "for_each f xs = sequence (map f xs)"

text \<open>\<^verbatim>\<open>d[k]\<close> on a dictionary, kept as the list of its items in insertion order.\<close>

definition dict_getitem :: "('k \<times> 'v) list \<Rightarrow> 'k \<Rightarrow> pyerror + 'v" where
  "dict_getitem d k = (case map_of d k of None \<Rightarrow> Inl KeyError | Some v \<Rightarrow> Inr v)"

text \<open>A Python \<^verbatim>\<open>str\<close> is a sequence of code points, a \<^verbatim>\<open>bytes\<close> a sequence
  of octets.\<close>

type_synonym pystr = "nat list"
type_synonym pybytes = "8 word list"

datatype torch_dtype = bfloat16 | float16 | float32 | float64 | int64 | torch_bool

datatype numpy_type =
  np_bytes | np_str | np_bool | np_int | np_uint64 | np_half | np_single | np_double | np_object

text \<open>An element of a numpy array. A floating-point number is recorded by the real
  number it denotes; the array's \<open>nd_dtype\<close> says in which format numpy stores it.\<close>

datatype scalar =
  SNone | SStr pystr | SBytes pybytes | SBool bool | SFloat real | SInt int

record ndarray =
  nd_dtype :: numpy_type
  nd_shape :: "nat list"
  nd_data :: "scalar list"

datatype torch_device = cpu | cuda

text \<open>A torch tensor: its element format, the device that holds it, its shape and its
  elements in row-major order, each recorded by the number it denotes.\<close>

record torch_tensor =
  t_dtype :: torch_dtype
  t_device :: torch_device
  t_shape :: "nat list"
  t_data :: "real list"

datatype pyvalue =
  PNone
| PStr pystr
| PBytes pybytes
| PBool bool
| PFloat real
| PInt int
| PList "pyvalue list"
| PTensor torch_tensor
| PArray ndarray
| PNumpy numpy_type scalar

datatype pytype =
  type_NoneType | type_str | type_bytes | type_bool | type_float | type_int | type_list
| type_Tensor | type_ndarray | type_numpy numpy_type

fun type_of :: "pyvalue \<Rightarrow> pytype" where
  "type_of PNone = type_NoneType"
| "type_of (PStr _) = type_str"
| "type_of (PBytes _) = type_bytes"
| "type_of (PBool _) = type_bool"
| "type_of (PFloat _) = type_float"
| "type_of (PInt _) = type_int"
| "type_of (PList _) = type_list"
| "type_of (PTensor _) = type_Tensor"
| "type_of (PArray _) = type_ndarray"
| "type_of (PNumpy d _) = type_numpy d"

text \<open>\<^verbatim>\<open>t[0]\<close> on a torch tensor: the first slice along the leading axis.\<close>

definition tensor_getitem0 :: "torch_tensor \<Rightarrow> pyerror + torch_tensor" where
  "tensor_getitem0 t =
     (case t_shape t of
        [] \<Rightarrow> Inl IndexError
      | n # rest \<Rightarrow>
          if n = 0 then Inl IndexError
          else Inr (t\<lparr>t_shape := rest, t_data := take (prod_list rest) (t_data t)\<rparr>))"

text \<open>An element read from a numpy array is a numpy scalar (\<open>PNumpy\<close>), but for an array
  of Python objects, whose elements are the objects themselves.\<close>

fun py_object :: "scalar \<Rightarrow> pyvalue" where
  "py_object SNone = PNone"
| "py_object (SStr s) = PStr s"
| "py_object (SBytes b) = PBytes b"
| "py_object (SBool b) = PBool b"
| "py_object (SFloat x) = PFloat x"
| "py_object (SInt i) = PInt i"

definition ndarray_element :: "numpy_type \<Rightarrow> scalar \<Rightarrow> pyvalue" where
  "ndarray_element d x = (if d = np_object then py_object x else PNumpy d x)"

text \<open>\<^verbatim>\<open>a[0]\<close> on a numpy array: an element when the array has one axis, the first
  slice otherwise. An array of no axis or of length 0 raises \<^verbatim>\<open>IndexError\<close>. (A
  well-formed array holds \<open>prod_list (nd_shape a)\<close> elements.)\<close>

definition ndarray_getitem0 :: "ndarray \<Rightarrow> pyerror + pyvalue" where
  "ndarray_getitem0 a =
     (case nd_shape a of
        [] \<Rightarrow> Inl IndexError
      | n # rest \<Rightarrow>
          if n = 0 then Inl IndexError
          else if rest = [] then
            (case nd_data a of
               [] \<Rightarrow> Inl IndexError
             | x # _ \<Rightarrow> Inr (ndarray_element (nd_dtype a) x))
          else Inr (PArray (a\<lparr>nd_shape := rest, nd_data := take (prod_list rest) (nd_data a)\<rparr>)))"

text \<open>\<^verbatim>\<open>value[0]\<close>, the only subscript the module applies to a Python value. The
  numpy scalars of strings and bytes are subscripted as \<^verbatim>\<open>str\<close> and \<^verbatim>\<open>bytes\<close> are;
  every other numpy scalar raises \<^verbatim>\<open>IndexError\<close>, every other value \<^verbatim>\<open>TypeError\<close>.\<close>

fun py_getitem0 :: "pyvalue \<Rightarrow> pyerror + pyvalue" where
  "py_getitem0 (PList []) = Inl IndexError"
| "py_getitem0 (PList (x # _)) = Inr x"
| "py_getitem0 (PStr []) = Inl IndexError"
| "py_getitem0 (PStr (c # _)) = Inr (PStr [c])"
| "py_getitem0 (PBytes []) = Inl IndexError"
| "py_getitem0 (PBytes (b # _)) = Inr (PInt (uint b))"
| "py_getitem0 (PTensor t) = and_then (tensor_getitem0 t) (\<lambda>r. Inr (PTensor r))"
| "py_getitem0 (PArray a) = ndarray_getitem0 a"
| "py_getitem0 (PNumpy d (SStr [])) = Inl IndexError"
| "py_getitem0 (PNumpy d (SStr (c # _))) = Inr (PStr [c])"
| "py_getitem0 (PNumpy d (SBytes [])) = Inl IndexError"
| "py_getitem0 (PNumpy d (SBytes (b # _))) = Inr (PInt (uint b))"
| "py_getitem0 (PNumpy d _) = Inl IndexError"
| "py_getitem0 _ = Inl TypeError"

section \<open>Schema derivation\<close>

text \<open>\<^verbatim>\<open>GetTensorShape\<close> (line 41): a list has the shape \<^verbatim>\<open>(-1,)\<close>, anything else
  \<^verbatim>\<open>(1,)\<close>.\<close>

definition GetTensorShape :: "pyvalue \<Rightarrow> int list" where
  "GetTensorShape pyvalue = [if type_of pyvalue = type_list then - 1 else 1]"

definition py_to_numpy_mapping :: "(pytype \<times> numpy_type) list" where
  "py_to_numpy_mapping =
     [(type_str, np_bytes), (type_bool, np_bool), (type_float, np_single), (type_int, np_int)]"

text \<open>\<^verbatim>\<open>GetNumpyDtype\<close> (lines 47 to 56). Both the subscript \<^verbatim>\<open>pyvalue[0]\<close> and the
  lookup in the dictionary can raise.\<close>

definition GetNumpyDtype :: "pyvalue \<Rightarrow> pyerror + numpy_type" where
  "GetNumpyDtype pyvalue =
     and_then
       (if type_of pyvalue = type_list
        then and_then (py_getitem0 pyvalue) (\<lambda>first. Inr (type_of first))
        else Inr (type_of pyvalue))
       (\<lambda>python_type. dict_getitem py_to_numpy_mapping python_type)"

text \<open>The tensor descriptor of the serving library (\<^verbatim>\<open>pytriton.model_config.Tensor\<close>);
  \<open>optional\<close> is \<open>False\<close> when the constructor is not given it.\<close>

record Tensor =
  name :: string
  shape :: "int list"
  dtype :: numpy_type
  optional :: bool

definition INPUT_PARAMETER_FIELDS :: "(string \<times> int \<times> numpy_type \<times> bool) list" where
  "INPUT_PARAMETER_FIELDS = [(''prompts'', - 1, np_bytes, False)]"

definition BLANK_OUTPUTTYPE :: "(string \<times> pyvalue) list" where
  "BLANK_OUTPUTTYPE =
     [(''sentences'', PList [PStr []]),
      (''tokens'', PList [PList [PStr []]]),
      (''logprob'', PList [PList [PFloat 0]]),
      (''full_logprob'', PList [PList [PFloat 0]]),
      (''token_ids'', PList [PList [PInt 0]]),
      (''offsets'', PList [PList [PInt 0]])]"

text \<open>One optional descriptor of a default parameter (lines 111 to 116).\<close>

definition parameter_tensor :: "string \<times> pyvalue \<Rightarrow> pyerror + Tensor" where
  "parameter_tensor p =
     (case p of (parameter_name, parameter_value) \<Rightarrow>
        and_then (GetNumpyDtype parameter_value) (\<lambda>d.
          Inr \<lparr>name = parameter_name, shape = GetTensorShape parameter_value,
               dtype = d, optional = True\<rparr>))"

text \<open>\<^verbatim>\<open>get_triton_input\<close> (lines 101 to 132). The two default dictionaries come from
  \<^verbatim>\<open>get_default_sampling_params\<close> and \<^verbatim>\<open>get_default_length_params\<close>, which are
  imported from another module; they are arguments here, as insertion-ordered lists of
  items.\<close>

definition get_triton_input ::
  "(string \<times> pyvalue) list \<Rightarrow> (string \<times> pyvalue) list \<Rightarrow> pyerror + Tensor list" where
  "get_triton_input default_sampling_params default_length_params =
     (let input_parameters =
            map (\<lambda>(n, (s, d, opt)). \<lparr>name = n, shape = [s], dtype = d, optional = opt\<rparr>)
              INPUT_PARAMETER_FIELDS
      in and_then (for_each parameter_tensor default_sampling_params) (\<lambda>sampling_parameters.
         and_then (for_each parameter_tensor default_length_params) (\<lambda>length_parameters.
           Inr (input_parameters @ sampling_parameters @ length_parameters))))"

text \<open>\<^verbatim>\<open>get_triton_output\<close> (lines 135 to 143).\<close>

definition get_triton_output :: "pyerror + Tensor list" where
  "get_triton_output =
     for_each
       (\<lambda>(parameter_name, parameter_value).
          and_then (py_getitem0 parameter_value) (\<lambda>first.
          and_then (GetNumpyDtype first) (\<lambda>d.
            Inr \<lparr>name = parameter_name, shape = GetTensorShape parameter_value,
                 dtype = d, optional = False\<rparr>)))
       BLANK_OUTPUTTYPE"

text \<open>The default values the derivation is specified for: a string, a boolean, a float,
  an integer, or a list of strings.\<close>

fun scalar_or_string_list :: "pyvalue \<Rightarrow> bool" where
  "scalar_or_string_list (PStr _) = True"
| "scalar_or_string_list (PBool _) = True"
| "scalar_or_string_list (PFloat _) = True"
| "scalar_or_string_list (PInt _) = True"
| "scalar_or_string_list (PList xs) = list_all (\<lambda>x. type_of x = type_str) xs"
| "scalar_or_string_list _ = False"

section \<open>Parameter extraction\<close>

text \<open>A request batch is a dictionary from input names to arrays. A call
  \<^verbatim>\<open>f(**inputs)\<close> of a function declared \<^verbatim>\<open>def f(**inputs)\<close> builds a new dictionary
  for the callee. Dictionaries are mutable objects, so they live in a store: the object
  at address \<open>a\<close> of the store \<open>h\<close> is \<open>h ! a\<close>, and a new object is appended.\<close>

type_synonym kwargs = "(string \<times> ndarray) list"
type_synonym store = "kwargs list"
type_synonym params = "(string \<times> pyvalue) list"

text \<open>\<^verbatim>\<open>arr[0][0]\<close>: the first element of the first row.\<close>

definition first_row_first_element :: "ndarray \<Rightarrow> pyerror + pyvalue" where
  "first_row_first_element arr = and_then (ndarray_getitem0 arr) py_getitem0"

text \<open>The loop of lines 148 to 150 (and of lines 156 to 158), over the keys of the
  default dictionary: \<open>params\<close> is the dictionary being overwritten, \<open>a\<close> the address of
  the callee's \<^verbatim>\<open>inputs\<close>. \<^verbatim>\<open>inputs.pop(field)\<close> removes the key before the subscripts
  are applied.\<close>

fun params_loop ::
  "string list \<Rightarrow> params \<Rightarrow> nat \<Rightarrow> store \<Rightarrow> pyerror + (params \<times> store)" where
  "params_loop [] ps a h = Inr (ps, h)"
| "params_loop (field # others) ps a h =
     (case map_of (h ! a) field of
        None \<Rightarrow> params_loop others ps a h
      | Some arr \<Rightarrow>
          and_then (first_row_first_element arr) (\<lambda>v.
            params_loop others (AList.update field v ps) a
              (h[a := AList.delete field (h ! a)])))"

text \<open>\<^verbatim>\<open>_sampling_params_from_triton_inputs\<close> (lines 146 to 151) and
  \<^verbatim>\<open>_length_params_from_triton_inputs\<close> (lines 154 to 159). The first argument is what
  the imported default provider returns, the second the items the caller splats.\<close>

definition sampling_params_from_triton_inputs ::
  "params \<Rightarrow> kwargs \<Rightarrow> store \<Rightarrow> pyerror + (params \<times> store)" where
  "sampling_params_from_triton_inputs get_default_sampling_params inputs h =
     (let a = length h;
          sampling_params = get_default_sampling_params
      in params_loop (map fst sampling_params) sampling_params a (h @ [inputs]))"

definition length_params_from_triton_inputs ::
  "params \<Rightarrow> kwargs \<Rightarrow> store \<Rightarrow> pyerror + (params \<times> store)" where
  "length_params_from_triton_inputs get_default_length_params inputs h =
     (let a = length h;
          length_params = get_default_length_params
      in params_loop (map fst length_params) length_params a (h @ [inputs]))"

section \<open>Checkpoint loader\<close>

text \<open>The loaded model is used through its \<^verbatim>\<open>generate\<close> method only, so a model is
  that method: from the prompts, the length parameters and the sampling parameters to
  the result dictionary, or an exception.\<close>

type_synonym megatron_model = "pystr list \<Rightarrow> params \<Rightarrow> params \<Rightarrow> pyerror + params"

text \<open>An instance; \<open>model = None\<close> when the attribute \<^verbatim>\<open>self.model\<close> was never
  assigned.\<close>

record MegatronGPTDeployable =
  nemo_checkpoint_filepath :: string
  model :: "megatron_model option"

text \<open>\<^verbatim>\<open>_load\<close> (lines 64 to 83). \<open>path_exists\<close> is the file system
  (\<^verbatim>\<open>Path(p).exists()\<close>); \<open>restore\<close> stands for the trainer set-up, the two calls of
  \<^verbatim>\<open>MegatronGPTModel.restore_from\<close> and \<^verbatim>\<open>eval()\<close>, all of the training runtime.\<close>

definition load ::
  "(string \<Rightarrow> bool) \<Rightarrow> (string \<Rightarrow> int \<Rightarrow> int \<Rightarrow> pyerror + megatron_model) \<Rightarrow>
   MegatronGPTDeployable \<Rightarrow> string \<Rightarrow> int \<Rightarrow> int \<Rightarrow> pyerror + MegatronGPTDeployable" where
  "load path_exists restore self filepath num_devices num_nodes =
     (if path_exists filepath
      then and_then (restore filepath num_devices num_nodes) (\<lambda>m. Inr (self\<lparr>model := Some m\<rparr>))
      else Inr self)"

text \<open>\<^verbatim>\<open>__init__\<close> (lines 60 to 62).\<close>

definition init ::
  "(string \<Rightarrow> bool) \<Rightarrow> (string \<Rightarrow> int \<Rightarrow> int \<Rightarrow> pyerror + megatron_model) \<Rightarrow>
   string \<Rightarrow> int \<Rightarrow> int \<Rightarrow> pyerror + MegatronGPTDeployable" where
  "init path_exists restore filepath num_devices num_nodes =
     load path_exists restore \<lparr>nemo_checkpoint_filepath = filepath, model = None\<rparr>
       filepath num_devices num_nodes"

section \<open>The numpy and torch operations the adapter calls\<close>

text \<open>\<^verbatim>\<open>t.cpu()\<close>, \<^verbatim>\<open>t.float()\<close> and \<^verbatim>\<open>t.numpy()\<close>. Every bfloat16 number is a
  single-precision number, so \<^verbatim>\<open>float()\<close> keeps the elements. numpy has no bfloat16 and
  reads host memory only.\<close>

definition tensor_cpu :: "torch_tensor \<Rightarrow> torch_tensor" where
  "tensor_cpu t = t\<lparr>t_device := cpu\<rparr>"

definition tensor_float :: "torch_tensor \<Rightarrow> torch_tensor" where
  "tensor_float t = t\<lparr>t_dtype := float32\<rparr>"

fun numpy_dtype_of :: "torch_dtype \<Rightarrow> numpy_type option" where
  "numpy_dtype_of bfloat16 = None"
| "numpy_dtype_of float16 = Some np_half"
| "numpy_dtype_of float32 = Some np_single"
| "numpy_dtype_of float64 = Some np_double"
| "numpy_dtype_of int64 = Some np_int"
| "numpy_dtype_of torch_bool = Some np_bool"

definition tensor_numpy :: "torch_tensor \<Rightarrow> pyerror + ndarray" where
  "tensor_numpy t =
     (if t_device t \<noteq> cpu then Inl TypeError
      else case numpy_dtype_of (t_dtype t) of
             None \<Rightarrow> Inl TypeError
           | Some d \<Rightarrow> Inr \<lparr>nd_dtype = d, nd_shape = t_shape t, nd_data = map SFloat (t_data t)\<rparr>)"

text \<open>The shape numpy finds in a nested Python value (numpy 1.24 and later: a ragged
  nesting raises \<^verbatim>\<open>ValueError\<close>). Strings and bytes are elements, not sequences.\<close>

fun nested_shape :: "pyvalue \<Rightarrow> pyerror + nat list" where
  "nested_shape (PList xs) =
     (case xs of
        [] \<Rightarrow> Inr [0]
      | _ \<Rightarrow> and_then (sequence (map nested_shape xs)) (\<lambda>ss.
               if list_all (\<lambda>s. s = hd ss) ss then Inr (length xs # hd ss)
               else Inl ValueError))"
| "nested_shape (PTensor t) = and_then (tensor_numpy t) (\<lambda>a. Inr (nd_shape a))"
| "nested_shape (PArray a) = Inr (nd_shape a)"
| "nested_shape _ = Inr []"

fun leaves :: "pyvalue \<Rightarrow> scalar list" where
  "leaves PNone = [SNone]"
| "leaves (PStr s) = [SStr s]"
| "leaves (PBytes b) = [SBytes b]"
| "leaves (PBool b) = [SBool b]"
| "leaves (PFloat x) = [SFloat x]"
| "leaves (PInt i) = [SInt i]"
| "leaves (PList xs) = concat (map leaves xs)"
| "leaves (PTensor t) = map SFloat (t_data t)"
| "leaves (PArray a) = nd_data a"
| "leaves (PNumpy d x) = [x]"

text \<open>Array creation gives a Python integer the first element type that holds it: the
  signed 64-bit integers (\<^verbatim>\<open>np.int_\<close>), the unsigned ones, or the Python objects.\<close>

definition int_dtype :: "int \<Rightarrow> numpy_type" where
  "int_dtype i =
     (if - (2 ^ 63) \<le> i \<and> i < 2 ^ 63 then np_int
      else if 0 \<le> i \<and> i < 2 ^ 64 then np_uint64
      else np_object)"

fun leaf_dtypes :: "pyvalue \<Rightarrow> numpy_type list" where
  "leaf_dtypes PNone = [np_object]"
| "leaf_dtypes (PStr s) = [np_str]"
| "leaf_dtypes (PBytes b) = [np_bytes]"
| "leaf_dtypes (PBool b) = [np_bool]"
| "leaf_dtypes (PFloat x) = [np_double]"
| "leaf_dtypes (PInt i) = [int_dtype i]"
| "leaf_dtypes (PList xs) = concat (map leaf_dtypes xs)"
| "leaf_dtypes (PTensor t) = (case numpy_dtype_of (t_dtype t) of None \<Rightarrow> [] | Some d \<Rightarrow> [d])"
| "leaf_dtypes (PArray a) = [nd_dtype a]"
| "leaf_dtypes (PNumpy d x) = [d]"

text \<open>The common element type of two element types, as array creation finds it.\<close>

fun promote :: "numpy_type \<Rightarrow> numpy_type \<Rightarrow> numpy_type" where
  "promote np_object _ = np_object"
| "promote _ np_object = np_object"
| "promote np_str _ = np_str"
| "promote _ np_str = np_str"
| "promote np_bytes _ = np_bytes"
| "promote _ np_bytes = np_bytes"
| "promote np_bool d = d"
| "promote d np_bool = d"
| "promote np_double _ = np_double"
| "promote _ np_double = np_double"
| "promote np_int np_int = np_int"
| "promote np_uint64 np_uint64 = np_uint64"
| "promote np_int _ = np_double"
| "promote _ np_int = np_double"
| "promote np_uint64 _ = np_double"
| "promote _ np_uint64 = np_double"
| "promote np_single _ = np_single"
| "promote _ np_single = np_single"
| "promote np_half np_half = np_half"

definition result_type :: "numpy_type list \<Rightarrow> numpy_type" where
  "result_type ds = (case ds of [] \<Rightarrow> np_double | d # rest \<Rightarrow> foldl promote d rest)"

text \<open>\<^verbatim>\<open>np.array(v)\<close> and \<^verbatim>\<open>np.shape(v)\<close>. The elements stay the values they are built
  from; \<open>nd_dtype\<close> records the element type numpy converts them to.\<close>

definition np_array :: "pyvalue \<Rightarrow> pyerror + ndarray" where
  "np_array v =
     and_then (nested_shape v) (\<lambda>sh.
       Inr \<lparr>nd_dtype = result_type (leaf_dtypes v), nd_shape = sh, nd_data = leaves v\<rparr>)"

definition np_shape :: "pyvalue \<Rightarrow> pyerror + nat list" where
  "np_shape v = and_then (np_array v) (\<lambda>a. Inr (nd_shape a))"

text \<open>Broadcasting the elements \<open>xs\<close> of an array of shape \<open>src\<close>, which has no more
  axes than \<open>dst\<close>, to the shape \<open>dst\<close>: the shapes are aligned at their last axes, and
  an axis of \<open>src\<close> has the length of its axis of \<open>dst\<close> or the length 1.\<close>

fun broadcast_aligned :: "nat list \<Rightarrow> nat list \<Rightarrow> 'a list \<Rightarrow> 'a list option" where
  "broadcast_aligned src [] xs = (if src = [] then Some xs else None)"
| "broadcast_aligned src (d # ds) xs =
     (if length src \<le> length ds
      then map_option (\<lambda>row. concat (replicate d row)) (broadcast_aligned src ds xs)
      else if length src = Suc (length ds) then
        (case src of
           [] \<Rightarrow> None
         | s # ss \<Rightarrow>
             if s = d then
               map_option concat
                 (those (map (\<lambda>i. broadcast_aligned ss ds
                                     (take (prod_list ss) (drop (i * prod_list ss) xs)))
                           [0..<s]))
             else if s = 1 then
               map_option (\<lambda>row. concat (replicate d row)) (broadcast_aligned ss ds xs)
             else None)
      else None)"

text \<open>Copying an array of shape \<open>src\<close> into one of shape \<open>dst\<close>: when \<open>src\<close> has more
  axes than \<open>dst\<close>, numpy first drops leading axes of length 1 from it, as many as it
  takes and no more; then it broadcasts.\<close>

fun strip_leading_ones :: "nat list \<Rightarrow> nat \<Rightarrow> nat list" where
  "strip_leading_ones [] n = []"
| "strip_leading_ones (s # ss) n =
     (if n < length (s # ss) \<and> s = 1 then strip_leading_ones ss n else s # ss)"

definition broadcast_data :: "nat list \<Rightarrow> nat list \<Rightarrow> 'a list \<Rightarrow> 'a list option" where
  "broadcast_data src dst xs = broadcast_aligned (strip_leading_ones src (length dst)) dst xs"

text \<open>The conversion of an element to the element type of the array it is copied into
  (casting \<^verbatim>\<open>unsafe\<close>, numpy 1.x on a 64-bit Linux). Text is read as a number the way
  Python's \<^verbatim>\<open>int\<close> and \<^verbatim>\<open>float\<close> read the decimal literals of ASCII digits (a sign,
  digits, and for \<^verbatim>\<open>float\<close> a fraction and an exponent). A floating-point number is
  the real it denotes, so a conversion between floating-point formats keeps it.\<close>

definition is_digit :: "nat \<Rightarrow> bool" where
  "is_digit c = (48 \<le> c \<and> c \<le> 57)"

definition is_space :: "nat \<Rightarrow> bool" where
  "is_space c = (c = 32 \<or> (9 \<le> c \<and> c \<le> 13))"

definition strip :: "pystr \<Rightarrow> pystr" where
  "strip s = rev (dropWhile is_space (rev (dropWhile is_space s)))"

definition digits_value :: "pystr \<Rightarrow> int" where
  "digits_value ds = foldl (\<lambda>a c. 10 * a + (int c - 48)) 0 ds"

definition split_sign :: "pystr \<Rightarrow> int \<times> pystr" where
  "split_sign s =
     (case s of
        [] \<Rightarrow> (1, [])
      | c # r \<Rightarrow> if c = 45 then (- 1, r) else if c = 43 then (1, r) else (1, s))"

definition signed_digits :: "pystr \<Rightarrow> int option" where
  "signed_digits s =
     (case split_sign s of
        (sg, ds) \<Rightarrow> if ds \<noteq> [] \<and> list_all is_digit ds then Some (sg * digits_value ds)
                    else None)"

definition int_literal :: "pystr \<Rightarrow> int option" where
  "int_literal s = signed_digits (strip s)"

definition float_literal :: "pystr \<Rightarrow> real option" where
  "float_literal s =
     (case split_sign (strip s) of
        (sg, r) \<Rightarrow>
          let mantissa = takeWhile (\<lambda>c. c \<noteq> 101 \<and> c \<noteq> 69) r;
              exponent = dropWhile (\<lambda>c. c \<noteq> 101 \<and> c \<noteq> 69) r;
              whole = takeWhile is_digit mantissa;
              point = dropWhile is_digit mantissa;
              fraction = tl point
          in if (point = [] \<or> hd point = 46 \<and> list_all is_digit fraction)
                \<and> (whole \<noteq> [] \<or> fraction \<noteq> [])
             then (case (if exponent = [] then Some 0 else signed_digits (tl exponent)) of
                     None \<Rightarrow> None
                   | Some e \<Rightarrow>
                       Some (of_int sg * of_int (digits_value (whole @ fraction))
                             / 10 ^ length fraction
                             * (if 0 \<le> e then 10 ^ nat e else 1 / 10 ^ nat (- e))))
             else None)"

text \<open>The first character of the text Python writes for a number, which is all that an
  array of \<^verbatim>\<open>bytes\<close> or \<^verbatim>\<open>str\<close> made without a length (one character an element) keeps
  of it.\<close>

function leading_digit :: "int \<Rightarrow> int" where
  "leading_digit n = (if n < 10 then n else leading_digit (n div 10))"
  by pat_completeness auto

termination leading_digit
  by (relation "measure nat") auto

declare leading_digit.simps [simp del]

definition float_head :: "real \<Rightarrow> nat" where
  "float_head x =
     (if x < 0 then 45
      else if x < 1 / 10000 then nat (48 + leading_digit \<lfloor>x * 10 ^ 400\<rfloor>)
      else if x < 1 then 48
      else nat (48 + leading_digit \<lfloor>x\<rfloor>))"

fun text_head :: "scalar \<Rightarrow> pystr" where
  "text_head SNone = [78]"
| "text_head (SStr s) = take 1 s"
| "text_head (SBytes b) = take 1 (map unat b)"
| "text_head (SBool b) = (if b then [84] else [70])"
| "text_head (SFloat x) = [float_head x]"
| "text_head (SInt i) = (if i < 0 then [45] else [nat (48 + leading_digit i)])"

definition rstrip_nul :: "'a::zero list \<Rightarrow> 'a list" where
  "rstrip_nul xs = rev (dropWhile (\<lambda>x. x = 0) (rev xs))"

fun to_bytes :: "scalar \<Rightarrow> pyerror + scalar" where
  "to_bytes (SStr s) =
     (if list_all (\<lambda>c. c < 128) s then Inr (SBytes (rstrip_nul (map of_nat (take 1 s))))
      else Inl UnicodeError)"
| "to_bytes (SBytes b) = Inr (SBytes (rstrip_nul (take 1 b)))"
| "to_bytes x = Inr (SBytes (map of_nat (text_head x)))"

fun to_str :: "scalar \<Rightarrow> pyerror + scalar" where
  "to_str (SStr s) = Inr (SStr (rstrip_nul (take 1 s)))"
| "to_str (SBytes b) =
     (if list_all (\<lambda>c. c < 128) b then Inr (SStr (rstrip_nul (map unat (take 1 b))))
      else Inl UnicodeError)"
| "to_str x = Inr (SStr (text_head x))"

definition toward_zero :: "real \<Rightarrow> int" where
  "toward_zero x = (if 0 \<le> x then \<lfloor>x\<rfloor> else \<lceil>x\<rceil>)"

definition wrap_int64 :: "int \<Rightarrow> int" where
  "wrap_int64 i = (i + 2 ^ 63) mod 2 ^ 64 - 2 ^ 63"

definition wrap_uint64 :: "int \<Rightarrow> int" where
  "wrap_uint64 i = i mod 2 ^ 64"

fun to_python_int :: "scalar \<Rightarrow> pyerror + int" where
  "to_python_int SNone = Inl TypeError"
| "to_python_int (SStr s) = (case int_literal s of None \<Rightarrow> Inl ValueError | Some i \<Rightarrow> Inr i)"
| "to_python_int (SBytes b) =
     (case int_literal (map unat b) of None \<Rightarrow> Inl ValueError | Some i \<Rightarrow> Inr i)"
| "to_python_int (SBool b) = Inr (if b then 1 else 0)"
| "to_python_int (SFloat x) = Inr (toward_zero x)"
| "to_python_int (SInt i) = Inr i"

definition to_int64 :: "scalar \<Rightarrow> pyerror + scalar" where
  "to_int64 x =
     and_then (to_python_int x) (\<lambda>i.
       case x of
         SFloat y \<Rightarrow> Inr (SInt (if int_dtype i = np_int then i else - (2 ^ 63)))
       | SInt j \<Rightarrow> if int_dtype i = np_object then Inl OverflowError else Inr (SInt (wrap_int64 i))
       | _ \<Rightarrow> if int_dtype i = np_int then Inr (SInt i) else Inl OverflowError)"

definition to_uint64 :: "scalar \<Rightarrow> pyerror + scalar" where
  "to_uint64 x =
     and_then (to_python_int x) (\<lambda>i.
       case x of
         SFloat y \<Rightarrow> Inr (SInt (wrap_uint64 i))
       | SInt j \<Rightarrow> if int_dtype i = np_object then Inl OverflowError else Inr (SInt (wrap_uint64 i))
       | _ \<Rightarrow> if 0 \<le> i \<and> i < 2 ^ 64 then Inr (SInt i) else Inl OverflowError)"

fun to_bool :: "scalar \<Rightarrow> pyerror + scalar" where
  "to_bool SNone = Inr (SBool False)"
| "to_bool (SBool b) = Inr (SBool b)"
| "to_bool (SFloat x) = Inr (SBool (x \<noteq> 0))"
| "to_bool x = and_then (to_python_int x) (\<lambda>i. Inr (SBool (i \<noteq> 0)))"

fun to_float :: "scalar \<Rightarrow> pyerror + scalar" where
  "to_float SNone = Inl TypeError"
| "to_float (SStr s) =
     (case float_literal s of None \<Rightarrow> Inl ValueError | Some x \<Rightarrow> Inr (SFloat x))"
| "to_float (SBytes b) =
     (case float_literal (map unat b) of None \<Rightarrow> Inl ValueError | Some x \<Rightarrow> Inr (SFloat x))"
| "to_float (SBool b) = Inr (SFloat (if b then 1 else 0))"
| "to_float (SFloat x) = Inr (SFloat x)"
| "to_float (SInt i) = Inr (SFloat (of_int i))"

fun np_cast :: "numpy_type \<Rightarrow> scalar \<Rightarrow> pyerror + scalar" where
  "np_cast np_object x = Inr x"
| "np_cast np_bytes x = to_bytes x"
| "np_cast np_str x = to_str x"
| "np_cast np_bool x = to_bool x"
| "np_cast np_int x = to_int64 x"
| "np_cast np_uint64 x = to_uint64 x"
| "np_cast np_half x = to_float x"
| "np_cast np_single x = to_float x"
| "np_cast np_double x = to_float x"

text \<open>\<^verbatim>\<open>np.full(shape, fill_value, dtype=dtype)\<close>: a new array of the shape and the
  element type, into which the array of the fill value is copied.\<close>

definition np_full :: "nat list \<Rightarrow> pyvalue \<Rightarrow> numpy_type \<Rightarrow> pyerror + ndarray" where
  "np_full sh fill_value d =
     and_then (nested_shape fill_value) (\<lambda>fsh.
       case broadcast_data fsh sh (leaves fill_value) of
         None \<Rightarrow> Inl ValueError
       | Some xs \<Rightarrow>
           and_then (for_each (np_cast d) xs) (\<lambda>ys.
             Inr \<lparr>nd_dtype = d, nd_shape = sh, nd_data = ys\<rparr>))"

text \<open>Iterating a value (\<^verbatim>\<open>for entry in value\<close>): a list gives its elements, a tensor
  and an array their slices along the leading axis, a string its characters, a byte string
  its octets.\<close>

definition tensor_rows :: "torch_tensor \<Rightarrow> pyerror + torch_tensor list" where
  "tensor_rows t =
     (case t_shape t of
        [] \<Rightarrow> Inl TypeError
      | n # rest \<Rightarrow>
          Inr (map (\<lambda>i. t\<lparr>t_shape := rest,
                          t_data := take (prod_list rest) (drop (i * prod_list rest) (t_data t))\<rparr>)
                 [0..<n]))"

definition ndarray_rows :: "ndarray \<Rightarrow> pyerror + pyvalue list" where
  "ndarray_rows a =
     (case nd_shape a of
        [] \<Rightarrow> Inl TypeError
      | n # rest \<Rightarrow>
          if rest = [] then Inr (map (ndarray_element (nd_dtype a)) (take n (nd_data a)))
          else Inr (map (\<lambda>i. PArray (a\<lparr>nd_shape := rest,
                                           nd_data := take (prod_list rest)
                                                        (drop (i * prod_list rest) (nd_data a))\<rparr>))
                      [0..<n]))"

fun py_iter :: "pyvalue \<Rightarrow> pyerror + pyvalue list" where
  "py_iter (PList xs) = Inr xs"
| "py_iter (PTensor t) = and_then (tensor_rows t) (\<lambda>rows. Inr (map PTensor rows))"
| "py_iter (PArray a) = ndarray_rows a"
| "py_iter (PStr s) = Inr (map (\<lambda>c. PStr [c]) s)"
| "py_iter (PBytes b) = Inr (map (\<lambda>x. PInt (uint x)) b)"
| "py_iter (PNumpy d (SStr s)) = Inr (map (\<lambda>c. PStr [c]) s)"
| "py_iter (PNumpy d (SBytes b)) = Inr (map (\<lambda>x. PInt (uint x)) b)"
| "py_iter _ = Inl TypeError"

section \<open>UTF-8\<close>

text \<open>The code points a UTF-8 encoder accepts: all but the surrogates.\<close>

definition is_scalar_value :: "nat \<Rightarrow> bool" where
  "is_scalar_value c = (c < 0xD800 \<or> (0xE000 \<le> c \<and> c < 0x110000))"

definition utf8_encode_char :: "nat \<Rightarrow> pyerror + pybytes" where
  "utf8_encode_char c =
     (if c < 0x80 then Inr [of_nat c]
      else if c < 0x800 then Inr [of_nat (0xC0 + c div 64), of_nat (0x80 + c mod 64)]
      else if c < 0x10000 then
        (if 0xD800 \<le> c \<and> c < 0xE000 then Inl UnicodeError
         else Inr [of_nat (0xE0 + c div 4096), of_nat (0x80 + c div 64 mod 64),
                   of_nat (0x80 + c mod 64)])
      else if c < 0x110000 then
        Inr [of_nat (0xF0 + c div 262144), of_nat (0x80 + c div 4096 mod 64),
             of_nat (0x80 + c div 64 mod 64), of_nat (0x80 + c mod 64)]
      else Inl UnicodeError)"

definition utf8_encode :: "pystr \<Rightarrow> pyerror + pybytes" where
  "utf8_encode s = and_then (for_each utf8_encode_char s) (\<lambda>bs. Inr (concat bs))"

definition continuation :: "8 word \<Rightarrow> bool" where
  "continuation b = (0x80 \<le> unat b \<and> unat b < 0xC0)"

text \<open>The strict decoder: a stray or missing continuation octet, an overlong form, a
  surrogate and a code point past \<^verbatim>\<open>U+10FFFF\<close> are errors.\<close>

fun utf8_decode :: "pybytes \<Rightarrow> pyerror + pystr" where
  "utf8_decode [] = Inr []"
| "utf8_decode (b0 # bs) =
     (if unat b0 < 0x80 then
        and_then (utf8_decode bs) (\<lambda>cs. Inr (unat b0 # cs))
      else if 0xC2 \<le> unat b0 \<and> unat b0 < 0xE0 then
        (case bs of
           b1 # r \<Rightarrow>
             if continuation b1 then
               and_then (utf8_decode r) (\<lambda>cs.
                 Inr (((unat b0 - 0xC0) * 64 + (unat b1 - 0x80)) # cs))
             else Inl UnicodeError
         | _ \<Rightarrow> Inl UnicodeError)
      else if 0xE0 \<le> unat b0 \<and> unat b0 < 0xF0 then
        (case bs of
           b1 # b2 # r \<Rightarrow>
             (let c = (unat b0 - 0xE0) * 4096 + (unat b1 - 0x80) * 64 + (unat b2 - 0x80)
              in if continuation b1 \<and> continuation b2 \<and> 0x800 \<le> c \<and> is_scalar_value c
                 then and_then (utf8_decode r) (\<lambda>cs. Inr (c # cs))
                 else Inl UnicodeError)
         | _ \<Rightarrow> Inl UnicodeError)
      else if 0xF0 \<le> unat b0 \<and> unat b0 < 0xF5 then
        (case bs of
           b1 # b2 # b3 # r \<Rightarrow>
             (let c = (unat b0 - 0xF0) * 262144 + (unat b1 - 0x80) * 4096
                        + (unat b2 - 0x80) * 64 + (unat b3 - 0x80)
              in if continuation b1 \<and> continuation b2 \<and> continuation b3
                    \<and> 0x10000 \<le> c \<and> c < 0x110000
                 then and_then (utf8_decode r) (\<lambda>cs. Inr (c # cs))
                 else Inl UnicodeError)
         | _ \<Rightarrow> Inl UnicodeError)
      else Inl UnicodeError)"

section \<open>The helpers of \<^verbatim>\<open>nemo.deploy.utils\<close>\<close>

text \<open>Modelled from the spec: \<^verbatim>\<open>cast_output\<close> is imported from \<^verbatim>\<open>nemo.deploy.utils\<close>,
  which is not among the sources. The spec says of a field whose target type is
  byte-string "cast every element from native text to byte-string encoding", and of
  the tensors of any other field "cast elements to the schema's declared numeric type".
  An element of a byte-string field that is not text raises \<^verbatim>\<open>TypeError\<close>.\<close>

fun encode_element :: "scalar \<Rightarrow> pyerror + scalar" where
  "encode_element (SStr s) = and_then (utf8_encode s) (\<lambda>b. Inr (SBytes b))"
| "encode_element _ = Inl TypeError"

definition cast_output :: "pyvalue \<Rightarrow> numpy_type \<Rightarrow> pyerror + ndarray" where
  "cast_output data_in required_dtype =
     and_then
       (case data_in of
          PTensor t \<Rightarrow> tensor_numpy (tensor_cpu t)
        | _ \<Rightarrow> np_array data_in)
       (\<lambda>a. if required_dtype = np_bytes
            then and_then (for_each encode_element (nd_data a)) (\<lambda>bs.
                   Inr \<lparr>nd_dtype = np_bytes, nd_shape = nd_shape a, nd_data = bs\<rparr>)
            else Inr (a\<lparr>nd_dtype := required_dtype\<rparr>))"

text \<open>Modelled from the spec: \<^verbatim>\<open>str_ndarray2list\<close> is imported from
  \<^verbatim>\<open>nemo.deploy.utils\<close>, which is not among the sources. The spec says the prompts
  field is "decoded separately as a sequence of native strings": every element, a byte
  string, is decoded. An element that is not a byte string raises \<^verbatim>\<open>TypeError\<close>.\<close>

fun decode_element :: "scalar \<Rightarrow> pyerror + pystr" where
  "decode_element (SBytes b) = utf8_decode b"
| "decode_element _ = Inl TypeError"

definition str_ndarray2list :: "ndarray \<Rightarrow> pyerror + pystr list" where
  "str_ndarray2list str_ndarray = for_each decode_element (nd_data str_ndarray)"

section \<open>The inference entry point\<close>

text \<open>Lines 163 to 165: the prompts are popped from the dictionary \<^verbatim>\<open>inputs\<close> of
  \<^verbatim>\<open>triton_infer_fn\<close> (the object at address 0 of an empty store) and decoded, then the
  two helpers are called with \<^verbatim>\<open>**inputs\<close>. The store is returned with the values.\<close>

definition request_parameters ::
  "params \<Rightarrow> params \<Rightarrow> kwargs \<Rightarrow> pyerror + (pystr list \<times> params \<times> params \<times> store)" where
  "request_parameters get_default_sampling_params get_default_length_params inputs =
     (let h0 = [inputs] in
      and_then (dict_getitem (h0 ! 0) ''prompts'') (\<lambda>prompts.
      let h1 = h0[0 := AList.delete ''prompts'' (h0 ! 0)] in
      and_then (str_ndarray2list prompts) (\<lambda>input_strings.
      and_then (sampling_params_from_triton_inputs get_default_sampling_params (h1 ! 0) h1)
        (\<lambda>(sampling_params, h2).
      and_then (length_params_from_triton_inputs get_default_length_params (h2 ! 0) h2)
        (\<lambda>(length_params, h3).
      Inr (input_strings, sampling_params, length_params, h3))))))"

text \<open>Lines 163 to 169: the result of \<^verbatim>\<open>self.model.generate\<close>. Reading \<^verbatim>\<open>self.model\<close>
  raises \<^verbatim>\<open>AttributeError\<close> when the attribute was never assigned.\<close>

definition model_output_of ::
  "MegatronGPTDeployable \<Rightarrow> params \<Rightarrow> params \<Rightarrow> kwargs \<Rightarrow> pyerror + params" where
  "model_output_of self get_default_sampling_params get_default_length_params inputs =
     and_then (request_parameters get_default_sampling_params get_default_length_params inputs)
       (\<lambda>(input_strings, sampling_params, length_params, h).
     and_then (case model self of None \<Rightarrow> Inl AttributeError | Some m \<Rightarrow> Inr m) (\<lambda>generate.
       generate input_strings length_params sampling_params))"

text \<open>\<^verbatim>\<open>MegatronGPTDeployable._BLANK_OUTPUTTYPE[model_output_field][0]\<close> (lines 179
  and 185).\<close>

definition blank_field :: "string \<Rightarrow> pyerror + pyvalue" where
  "blank_field model_output_field =
     and_then (dict_getitem BLANK_OUTPUTTYPE model_output_field) py_getitem0"

text \<open>The body of the loop over the fields of the model's result (lines 179 to 199).\<close>

definition triton_output_field :: "params \<Rightarrow> string \<Rightarrow> pyvalue \<Rightarrow> pyerror + ndarray" where
  "triton_output_field model_output model_output_field val =
     and_then (blank_field model_output_field) (\<lambda>blank.
     and_then (GetNumpyDtype blank) (\<lambda>field_dtype.
       if val = PNone then
         and_then (dict_getitem model_output ''sentences'') (\<lambda>sentences.
         and_then (np_shape sentences) (\<lambda>sh.
           np_full sh blank field_dtype))
       else if field_dtype = np_bytes then cast_output val field_dtype
       else
         and_then (py_getitem0 val) (\<lambda>first.
           case first of
             PTensor t0 \<Rightarrow>
               if t_dtype t0 = bfloat16 then
                 and_then (py_iter val) (\<lambda>entries.
                 and_then
                   (for_each
                      (\<lambda>entry. case entry of
                                  PTensor t \<Rightarrow> tensor_numpy (tensor_float (tensor_cpu t))
                                | _ \<Rightarrow> Inl AttributeError)
                      entries)
                   (\<lambda>arrays. np_array (PList (map PArray arrays))))
               else
                 and_then (py_iter val) (\<lambda>entries.
                 and_then (for_each (\<lambda>entry. cast_output entry field_dtype) entries)
                   (\<lambda>arrays. np_array (PList (map PArray arrays))))
           | _ \<Rightarrow> np_array val)))"

text \<open>The loop of line 178 over \<^verbatim>\<open>model_output.items()\<close>; \<open>triton_output\<close> is the
  dictionary filled so far.\<close>

fun triton_output_loop ::
  "params \<Rightarrow> (string \<times> pyvalue) list \<Rightarrow> kwargs \<Rightarrow> pyerror + kwargs" where
  "triton_output_loop model_output [] triton_output = Inr triton_output"
| "triton_output_loop model_output ((model_output_field, val) # items) triton_output =
     and_then (triton_output_field model_output model_output_field val) (\<lambda>arr.
       triton_output_loop model_output items
         (AList.update model_output_field arr triton_output))"

text \<open>\<^verbatim>\<open>triton_infer_fn\<close> (lines 162 to 200).\<close>

definition triton_infer_fn ::
  "MegatronGPTDeployable \<Rightarrow> params \<Rightarrow> params \<Rightarrow> kwargs \<Rightarrow> pyerror + kwargs" where
  "triton_infer_fn self get_default_sampling_params get_default_length_params inputs =
     and_then (model_output_of self get_default_sampling_params get_default_length_params inputs)
       (\<lambda>model_output. triton_output_loop model_output model_output [])"

section \<open>Example collaborators\<close>

text \<open>A file system without files and a restoration that fails.\<close>

definition empty_filesystem :: "string \<Rightarrow> bool" where
  "empty_filesystem p = False"

definition failing_restore :: "string \<Rightarrow> int \<Rightarrow> int \<Rightarrow> pyerror + megatron_model" where
  "failing_restore p num_devices num_nodes = Inl RuntimeError"

text \<open>A request of the one prompt \<^verbatim>\<open>Hi\<close>; a model whose result holds the generated
  text only; and a model that returns all six fields, the log-probabilities as bfloat16
  tensors on the accelerator and no full log-probabilities, with an instance that holds
  it, its result for the request and the response to it.\<close>

definition hi_request :: kwargs where
  "hi_request =
     [(''prompts'', \<lparr>nd_dtype = np_bytes, nd_shape = [1, 1], nd_data = [SBytes [72, 105]]\<rparr>)]"

definition sentences_only_model :: megatron_model where
  "sentences_only_model prompts length_params sampling_params =
     Inr [(''sentences'', PList (map PStr prompts))]"

definition echo_model :: megatron_model where
  "echo_model prompts length_params sampling_params =
     Inr [(''sentences'', PList (map PStr prompts)),
          (''tokens'', PList (map (\<lambda>p. PList [PStr p]) prompts)),
          (''logprob'',
           PList (map (\<lambda>p. PTensor \<lparr>t_dtype = bfloat16, t_device = cuda, t_shape = [2],
                                      t_data = [- 1, - 0.5]\<rparr>) prompts)),
          (''full_logprob'', PNone),
          (''token_ids'', PList (map (\<lambda>p. PList [PInt 7, PInt 9]) prompts)),
          (''offsets'', PList (map (\<lambda>p. PList [PInt 0, PInt 1]) prompts))]"

text \<open>A model that generates the text and leaves every other field \<^verbatim>\<open>None\<close>, an
  instance that holds it, a request of three prompts, the model's result for it and the
  response to it.\<close>

definition text_model :: megatron_model where
  "text_model prompts length_params sampling_params =
     Inr [(''sentences'', PList (map PStr prompts)),
          (''tokens'', PNone),
          (''logprob'', PNone),
          (''full_logprob'', PNone),
          (''token_ids'', PNone),
          (''offsets'', PNone)]"

definition text_instance :: MegatronGPTDeployable where
  "text_instance = \<lparr>nemo_checkpoint_filepath = ''megatron.nemo'', model = Some text_model\<rparr>"

definition three_request :: kwargs where
  "three_request =
     [(''prompts'', \<lparr>nd_dtype = np_bytes, nd_shape = [3, 1],
                      nd_data = [SBytes [72, 105], SBytes [89, 111], SBytes [79, 107]]\<rparr>)]"

definition three_model_output :: params where
  "three_model_output =
     [(''sentences'', PList [PStr [72, 105], PStr [89, 111], PStr [79, 107]]),
      (''tokens'', PNone),
      (''logprob'', PNone),
      (''full_logprob'', PNone),
      (''token_ids'', PNone),
      (''offsets'', PNone)]"

definition three_response :: kwargs where
  "three_response =
     [(''sentences'', \<lparr>nd_dtype = np_bytes, nd_shape = [3],
                        nd_data = [SBytes [72, 105], SBytes [89, 111], SBytes [79, 107]]\<rparr>),
      (''tokens'', \<lparr>nd_dtype = np_bytes, nd_shape = [3],
                     nd_data = [SBytes [], SBytes [], SBytes []]\<rparr>),
      (''logprob'', \<lparr>nd_dtype = np_single, nd_shape = [3],
                      nd_data = [SFloat 0, SFloat 0, SFloat 0]\<rparr>),
      (''full_logprob'', \<lparr>nd_dtype = np_single, nd_shape = [3],
                           nd_data = [SFloat 0, SFloat 0, SFloat 0]\<rparr>),
      (''token_ids'', \<lparr>nd_dtype = np_int, nd_shape = [3], nd_data = [SInt 0, SInt 0, SInt 0]\<rparr>),
      (''offsets'', \<lparr>nd_dtype = np_int, nd_shape = [3], nd_data = [SInt 0, SInt 0, SInt 0]\<rparr>)]"

definition echo_instance :: MegatronGPTDeployable where
  "echo_instance = \<lparr>nemo_checkpoint_filepath = ''megatron.nemo'', model = Some echo_model\<rparr>"

definition hi_model_output :: params where
  "hi_model_output =
     [(''sentences'', PList [PStr [72, 105]]),
      (''tokens'', PList [PList [PStr [72, 105]]]),
      (''logprob'', PList [PTensor \<lparr>t_dtype = bfloat16, t_device = cuda, t_shape = [2],
                                     t_data = [- 1, - 0.5]\<rparr>]),
      (''full_logprob'', PNone),
      (''token_ids'', PList [PList [PInt 7, PInt 9]]),
      (''offsets'', PList [PList [PInt 0, PInt 1]])]"

definition hi_response :: kwargs where
  "hi_response =
     [(''sentences'', \<lparr>nd_dtype = np_bytes, nd_shape = [1], nd_data = [SBytes [72, 105]]\<rparr>),
      (''tokens'', \<lparr>nd_dtype = np_bytes, nd_shape = [1, 1], nd_data = [SBytes [72, 105]]\<rparr>),
      (''logprob'', \<lparr>nd_dtype = np_single, nd_shape = [1, 2],
                      nd_data = [SFloat (- 1), SFloat (- 0.5)]\<rparr>),
      (''full_logprob'', \<lparr>nd_dtype = np_single, nd_shape = [1], nd_data = [SFloat 0]\<rparr>),
      (''token_ids'', \<lparr>nd_dtype = np_int, nd_shape = [1, 2], nd_data = [SInt 7, SInt 9]\<rparr>),
      (''offsets'', \<lparr>nd_dtype = np_int, nd_shape = [1, 2], nd_data = [SInt 0, SInt 1]\<rparr>)]"

section \<open>Sequencing lemmas\<close>

lemma and_then_Inr [simp]: "and_then (Inr x) f = f x"
  by (simp add: and_then_def)

lemma and_then_Inl [simp]: "and_then (Inl e) f = Inl e"
  by (simp add: and_then_def)

lemma and_then_eq_Inr:
  "and_then r f = Inr y \<longleftrightarrow> (\<exists>x. r = Inr x \<and> f x = Inr y)"
  by (cases r) simp_all

lemma and_then_eq_Inl:
  "and_then r f = Inl e \<longleftrightarrow> r = Inl e \<or> (\<exists>x. r = Inr x \<and> f x = Inl e)"
  by (cases r) simp_all

lemma for_each_Nil [simp]: "for_each f [] = Inr []"
  by (simp add: for_each_def)

lemma for_each_Cons [simp]:
  "for_each f (x # xs) = and_then (f x) (\<lambda>y. and_then (for_each f xs) (\<lambda>ys. Inr (y # ys)))"
  by (simp add: for_each_def)

lemma for_each_all_Inr:
  "(\<And>x. x \<in> set xs \<Longrightarrow> f x = Inr (g x)) \<Longrightarrow> for_each f xs = Inr (map g xs)"
  by (induction xs) simp_all

lemma for_each_Inl_elem:
  "for_each f xs = Inl e \<Longrightarrow> \<exists>x \<in> set xs. f x = Inl e"
  by (induction xs) (auto simp: and_then_eq_Inl)

lemma for_each_elem_Inl:
  "x \<in> set xs \<Longrightarrow> f x = Inl e \<Longrightarrow> \<exists>e'. for_each f xs = Inl e'"
proof (induction xs)
  case Nil
  then show ?case by simp
next
  case (Cons a xs)
  show ?case
  proof (cases "f a")
    case (Inl e1)
    then show ?thesis by simp
  next
    case (Inr y)
    with Cons obtain e' where "for_each f xs = Inl e'" by auto
    with Inr show ?thesis by simp
  qed
qed

lemma for_each_append:
  "for_each f (xs @ ys) =
     and_then (for_each f xs) (\<lambda>us. and_then (for_each f ys) (\<lambda>vs. Inr (us @ vs)))"
proof (induction xs)
  case Nil
  show ?case by (cases "for_each f ys") simp_all
next
  case (Cons a xs)
  show ?case
    by (cases "f a"; cases "for_each f xs"; cases "for_each f ys") (simp_all add: Cons)
qed

section \<open>Properties of schema derivation\<close>

lemma GetNumpyDtype_simps:
  "GetNumpyDtype (PStr s) = Inr np_bytes"
  "GetNumpyDtype (PBool b) = Inr np_bool"
  "GetNumpyDtype (PFloat x) = Inr np_single"
  "GetNumpyDtype (PInt i) = Inr np_int"
  "GetNumpyDtype (PList (v # vs)) = dict_getitem py_to_numpy_mapping (type_of v)"
  "GetNumpyDtype (PList []) = Inl IndexError"
  by (simp_all add: GetNumpyDtype_def dict_getitem_def py_to_numpy_mapping_def)

lemma GetNumpyDtype_error: "GetNumpyDtype v = Inl e \<Longrightarrow> is_lookup_error e"
  by (cases v rule: py_getitem0.cases)
     (auto simp: GetNumpyDtype_def dict_getitem_def and_then_eq_Inl split: option.splits)

lemma parameter_tensor_error: "parameter_tensor p = Inl e \<Longrightarrow> is_lookup_error e"
  by (cases p) (auto simp: parameter_tensor_def and_then_eq_Inl dest: GetNumpyDtype_error)

lemma parameter_tensor_ok:
  assumes "scalar_or_string_list v" "v \<noteq> PList []"
  shows "\<exists>d. GetNumpyDtype v = Inr d \<and>
           parameter_tensor (k, v) =
             Inr \<lparr>name = k, shape = (case v of PList _ \<Rightarrow> [- 1] | _ \<Rightarrow> [1]), dtype = d,
                  optional = True\<rparr>"
proof (cases v)
  case (PList xs)
  with assms obtain x xs' where xs: "xs = x # xs'" "type_of x = type_str"
    by (cases xs) auto
  with PList show ?thesis
    by (simp add: parameter_tensor_def GetNumpyDtype_simps dict_getitem_def
        py_to_numpy_mapping_def GetTensorShape_def)
qed (use assms in \<open>simp_all add: parameter_tensor_def GetNumpyDtype_simps GetTensorShape_def\<close>)

text \<open>The output schema: one required descriptor per field of the placeholder record,
  byte strings for the two text fields, single-precision floats for the two
  log-probability fields and integers for the token ids and the offsets.\<close>

lemma get_triton_output_value:
  "get_triton_output =
     Inr [\<lparr>name = ''sentences'', shape = [- 1], dtype = np_bytes, optional = False\<rparr>,
          \<lparr>name = ''tokens'', shape = [- 1], dtype = np_bytes, optional = False\<rparr>,
          \<lparr>name = ''logprob'', shape = [- 1], dtype = np_single, optional = False\<rparr>,
          \<lparr>name = ''full_logprob'', shape = [- 1], dtype = np_single, optional = False\<rparr>,
          \<lparr>name = ''token_ids'', shape = [- 1], dtype = np_int, optional = False\<rparr>,
          \<lparr>name = ''offsets'', shape = [- 1], dtype = np_int, optional = False\<rparr>]"
  by (simp add: get_triton_output_def BLANK_OUTPUTTYPE_def GetNumpyDtype_simps
      GetTensorShape_def dict_getitem_def py_to_numpy_mapping_def)

text \<open>Claim C4, as amended. For default dictionaries whose values are strings, booleans,
  floats, integers or non-empty lists of strings, \<^verbatim>\<open>get_triton_input\<close> does not raise.
  It returns the required descriptor \<^verbatim>\<open>prompts\<close> of shape \<^verbatim>\<open>(-1,)\<close>, followed by one
  optional descriptor per key of the sampling defaults and then one per key of the length
  defaults, in order; a descriptor has the shape \<^verbatim>\<open>(-1,)\<close> when the default is a list
  and \<^verbatim>\<open>(1,)\<close> otherwise, and the element type \<^verbatim>\<open>GetNumpyDtype\<close> derives.\<close>

theorem get_triton_input_schema:
  assumes ok: "list_all (\<lambda>(k, v). scalar_or_string_list v \<and> v \<noteq> PList []) (sp @ lp)"
  shows "\<exists>ts. get_triton_input sp lp =
               Inr (\<lparr>name = ''prompts'', shape = [- 1], dtype = np_bytes, optional = False\<rparr> # ts)
           \<and> map name ts = map fst (sp @ lp)
           \<and> list_all optional ts
           \<and> map shape ts = map (\<lambda>(k, v). case v of PList _ \<Rightarrow> [- 1] | _ \<Rightarrow> [1]) (sp @ lp)
           \<and> map (\<lambda>t. Inr (dtype t)) ts = map (\<lambda>(k, v). GetNumpyDtype v) (sp @ lp)"
proof -
  define desc where "desc = (\<lambda>p :: string \<times> pyvalue.
     \<lparr>name = fst p, shape = (case snd p of PList _ \<Rightarrow> [- 1] | _ \<Rightarrow> [1]),
      dtype = (case GetNumpyDtype (snd p) of Inr d \<Rightarrow> d | Inl _ \<Rightarrow> np_object),
      optional = True\<rparr>)"
  have each: "parameter_tensor p = Inr (desc p) \<and> GetNumpyDtype (snd p) = Inr (dtype (desc p))"
    if "p \<in> set (sp @ lp)" for p
  proof -
    obtain k v where p: "p = (k, v)" by (cases p)
    with that ok have "scalar_or_string_list v" "v \<noteq> PList []"
      by (auto simp: list_all_iff)
    from parameter_tensor_ok [OF this, of k] p show ?thesis
      by (auto simp: desc_def)
  qed
  have s: "for_each parameter_tensor sp = Inr (map desc sp)"
    by (rule for_each_all_Inr) (simp add: each)
  have l: "for_each parameter_tensor lp = Inr (map desc lp)"
    by (rule for_each_all_Inr) (simp add: each)
  have res: "get_triton_input sp lp =
      Inr (\<lparr>name = ''prompts'', shape = [- 1], dtype = np_bytes, optional = False\<rparr>
           # map desc (sp @ lp))"
    by (simp add: get_triton_input_def s l INPUT_PARAMETER_FIELDS_def)
  have n: "map name (map desc (sp @ lp)) = map fst (sp @ lp)"
    by (simp add: desc_def)
  have o: "list_all optional (map desc (sp @ lp))"
    by (auto simp: desc_def list_all_iff)
  have sh: "map shape (map desc (sp @ lp))
            = map (\<lambda>(k, v). case v of PList _ \<Rightarrow> [- 1] | _ \<Rightarrow> [1]) (sp @ lp)"
    by (simp add: desc_def case_prod_unfold)
  have d: "map (\<lambda>t. Inr (dtype t)) (map desc (sp @ lp)) = map (\<lambda>(k, v). GetNumpyDtype v) (sp @ lp)"
    using each by (auto simp: case_prod_unfold)
  from res n o sh d show ?thesis by blast
qed

text \<open>The theorem at a sampling dictionary with a float and a list of two strings and a
  length dictionary with an integer.\<close>

theorem get_triton_input_schema_witness:
  "list_all (\<lambda>(k, v). scalar_or_string_list v \<and> v \<noteq> PList [])
     ([(''temperature'', PFloat 1), (''end_strings'', PList [PStr [60], PStr [62]])]
      @ [(''max_length'', PInt 30)])
   \<and> get_triton_input
       [(''temperature'', PFloat 1), (''end_strings'', PList [PStr [60], PStr [62]])]
       [(''max_length'', PInt 30)]
     = Inr [\<lparr>name = ''prompts'', shape = [- 1], dtype = np_bytes, optional = False\<rparr>,
            \<lparr>name = ''temperature'', shape = [1], dtype = np_single, optional = True\<rparr>,
            \<lparr>name = ''end_strings'', shape = [- 1], dtype = np_bytes, optional = True\<rparr>,
            \<lparr>name = ''max_length'', shape = [1], dtype = np_int, optional = True\<rparr>]"
  using get_triton_input_schema
    [of "[(''temperature'', PFloat 1), (''end_strings'', PList [PStr [60], PStr [62]])]"
        "[(''max_length'', PInt 30)]"]
  by (simp add: get_triton_input_def parameter_tensor_def GetNumpyDtype_simps
      INPUT_PARAMETER_FIELDS_def GetTensorShape_def dict_getitem_def py_to_numpy_mapping_def)

text \<open>Claim C4 as stated fails: the empty list is a list of strings, and a sampling
  dictionary that holds it makes \<^verbatim>\<open>get_triton_input\<close> raise \<^verbatim>\<open>IndexError\<close>.\<close>

theorem get_triton_input_empty_list_counterexample:
  "scalar_or_string_list (PList []) \<and>
   get_triton_input [(''end_strings'', PList [])] [] = Inl IndexError"
  by (simp add: get_triton_input_def parameter_tensor_def GetNumpyDtype_simps)

text \<open>Claim C5. \<^verbatim>\<open>GetNumpyDtype\<close> maps a string to the byte-string type, a boolean to
  \<^verbatim>\<open>np.bool_\<close>, a float to \<^verbatim>\<open>np.single\<close> and an integer to \<^verbatim>\<open>np.int_\<close>; for a
  non-empty list the result is the dictionary's entry for the type of the first element,
  so a list that starts with a string, a boolean, a float or an integer gets the type of
  that element.\<close>

theorem GetNumpyDtype_mapping:
  "GetNumpyDtype (PStr s) = Inr np_bytes \<and>
   GetNumpyDtype (PBool b) = Inr np_bool \<and>
   GetNumpyDtype (PFloat x) = Inr np_single \<and>
   GetNumpyDtype (PInt i) = Inr np_int \<and>
   GetNumpyDtype (PList (v # vs)) = dict_getitem py_to_numpy_mapping (type_of v) \<and>
   GetNumpyDtype (PList (PStr s # vs)) = GetNumpyDtype (PStr s) \<and>
   GetNumpyDtype (PList (PBool b # vs)) = GetNumpyDtype (PBool b) \<and>
   GetNumpyDtype (PList (PFloat x # vs)) = GetNumpyDtype (PFloat x) \<and>
   GetNumpyDtype (PList (PInt i # vs)) = GetNumpyDtype (PInt i)"
  by (simp add: GetNumpyDtype_def dict_getitem_def py_to_numpy_mapping_def)

text \<open>Claim C6. On the empty list \<^verbatim>\<open>GetNumpyDtype\<close> raises \<^verbatim>\<open>IndexError\<close>, a lookup
  error. Nothing catches it: \<^verbatim>\<open>get_triton_input\<close>, the one caller that passes default
  values, raises a lookup error whenever a default dictionary holds an empty list.\<close>

theorem GetNumpyDtype_empty_list:
  "GetNumpyDtype (PList []) = Inl IndexError \<and> is_lookup_error IndexError \<and>
   ((k, PList []) \<in> set (sp @ lp) \<longrightarrow>
      (\<exists>e. get_triton_input sp lp = Inl e \<and> is_lookup_error e))"
proof -
  have propagates: "\<exists>e. get_triton_input sp lp = Inl e \<and> is_lookup_error e"
    if mem: "(k, PList []) \<in> set (sp @ lp)"
  proof -
    have bad: "parameter_tensor (k, PList []) = Inl IndexError"
      by (simp add: parameter_tensor_def GetNumpyDtype_simps)
    from for_each_elem_Inl [of "(k, PList [])" "sp @ lp" parameter_tensor IndexError] mem bad
    obtain e where e: "for_each parameter_tensor (sp @ lp) = Inl e" by blast
    then obtain p where "parameter_tensor p = Inl e"
      by (blast dest: for_each_Inl_elem)
    then have le: "is_lookup_error e" by (rule parameter_tensor_error)
    from e have "get_triton_input sp lp = Inl e"
      by (cases "for_each parameter_tensor sp"; cases "for_each parameter_tensor lp")
         (simp_all add: get_triton_input_def for_each_append)
    with le show ?thesis by blast
  qed
  show ?thesis using propagates by (simp add: GetNumpyDtype_simps)
qed

text \<open>The theorem at a sampling dictionary whose second value is the empty list.\<close>

theorem GetNumpyDtype_empty_list_witness:
  "(''end_strings'', PList []) \<in> set ([(''top_k'', PInt 0), (''end_strings'', PList [])] @ [])
   \<and> get_triton_input [(''top_k'', PInt 0), (''end_strings'', PList [])] [] = Inl IndexError
   \<and> is_lookup_error IndexError"
  using GetNumpyDtype_empty_list
    [of "''end_strings''" "[(''top_k'', PInt 0), (''end_strings'', PList [])]" "[]"]
  by (simp add: get_triton_input_def parameter_tensor_def GetNumpyDtype_simps
      INPUT_PARAMETER_FIELDS_def GetTensorShape_def)

section \<open>Properties of parameter extraction\<close>

lemma py_getitem0_error: "py_getitem0 v = Inl e \<Longrightarrow> e = IndexError \<or> e = TypeError"
  by (cases v rule: py_getitem0.cases)
     (auto simp: and_then_eq_Inl tensor_getitem0_def ndarray_getitem0_def
       split: list.splits if_splits)

lemma first_row_first_element_error:
  "first_row_first_element arr = Inl e \<Longrightarrow> e = IndexError \<or> e = TypeError"
proof -
  assume a: "first_row_first_element arr = Inl e"
  have n: "ndarray_getitem0 arr = Inl e' \<Longrightarrow> e' = IndexError" for e'
    by (auto simp: ndarray_getitem0_def split: list.splits if_splits)
  from a n py_getitem0_error show ?thesis
    by (auto simp: first_row_first_element_def and_then_eq_Inl)
qed

lemma map_of_delete_other: "k \<noteq> f \<Longrightarrow> map_of (AList.delete f al) k = map_of al k"
  by (simp add: delete_conv')

lemma map_of_delete_same: "map_of (AList.delete f al) f = None"
  by (simp add: delete_conv')

lemma delete_eq_filter: "AList.delete f al = filter (\<lambda>kv. fst kv \<noteq> f) al"
  by (induction al) auto

lemma params_loop_Inr:
  assumes "params_loop fs ps a h = Inr (ps', h')" and "a < length h"
  shows "length h' = length h
       \<and> (\<forall>b. b \<noteq> a \<longrightarrow> h' ! b = h ! b)
       \<and> h' ! a = filter (\<lambda>kv. fst kv \<notin> set fs) (h ! a)
       \<and> (set fs \<subseteq> fst ` set ps \<longrightarrow> map fst ps' = map fst ps)
       \<and> (\<forall>k. map_option Inr (map_of ps' k) =
               (case (if k \<in> set fs then map_of (h ! a) k else None) of
                  None \<Rightarrow> map_option Inr (map_of ps k)
                | Some arr \<Rightarrow> Some (first_row_first_element arr)))"
  using assms
proof (induction fs arbitrary: ps h)
  case Nil
  then show ?case by simp
next
  case (Cons f fs)
  show ?case
  proof (cases "map_of (h ! a) f")
    case None
    with Cons.prems have run: "params_loop fs ps a h = Inr (ps', h')" by simp
    have nf: "filter (\<lambda>kv. fst kv \<notin> set fs) (h ! a) = filter (\<lambda>kv. fst kv \<notin> set (f # fs)) (h ! a)"
    proof (rule filter_cong [OF refl])
      fix kv assume "kv \<in> set (h ! a)"
      with None have "fst kv \<noteq> f"
        by (metis map_of_eq_None_iff image_eqI)
      then show "(fst kv \<notin> set fs) = (fst kv \<notin> set (f # fs))" by simp
    qed
    from Cons.IH [OF run Cons.prems(2)] None nf show ?thesis
      by (auto split: option.splits)
  next
    case (Some arr)
    with Cons.prems obtain v where v: "first_row_first_element arr = Inr v"
      and run: "params_loop fs (AList.update f v ps) a (h[a := AList.delete f (h ! a)]) = Inr (ps', h')"
      by (auto simp: and_then_eq_Inr)
    let ?h1 = "h[a := AList.delete f (h ! a)]"
    have a1: "a < length ?h1" using Cons.prems(2) by simp
    have h1a: "?h1 ! a = AList.delete f (h ! a)" using Cons.prems(2) by simp
    note IH = Cons.IH [OF run a1]
    have len: "length h' = length h" using IH by simp
    have frame: "\<forall>b. b \<noteq> a \<longrightarrow> h' ! b = h ! b" using IH by simp
    have copy: "h' ! a = filter (\<lambda>kv. fst kv \<notin> set (f # fs)) (h ! a)"
    proof -
      have "h' ! a = filter (\<lambda>kv. fst kv \<notin> set fs) (AList.delete f (h ! a))"
        using IH h1a by simp
      then show ?thesis
        by (simp add: delete_eq_filter conj_commute)
    qed
    have keys: "set (f # fs) \<subseteq> fst ` set ps \<longrightarrow> map fst ps' = map fst ps"
    proof
      assume sub: "set (f # fs) \<subseteq> fst ` set ps"
      then have "map fst (AList.update f v ps) = map fst ps"
        by (simp add: update_keys)
      moreover from sub have "set fs \<subseteq> fst ` set (AList.update f v ps)"
        by (auto simp: dom_update)
      ultimately show "map fst ps' = map fst ps" using IH by simp
    qed
    have vals: "map_option Inr (map_of ps' k) =
               (case (if k \<in> set (f # fs) then map_of (h ! a) k else None) of
                  None \<Rightarrow> map_option Inr (map_of ps k)
                | Some arr \<Rightarrow> Some (first_row_first_element arr))" for k
    proof (cases "k = f")
      case True
      from IH have "map_option Inr (map_of ps' f) =
               (case (if f \<in> set fs then map_of (?h1 ! a) f else None) of
                  None \<Rightarrow> map_option Inr (map_of (AList.update f v ps) f)
                | Some arr \<Rightarrow> Some (first_row_first_element arr))" by blast
      then show ?thesis using True Some v
        by (auto simp: h1a map_of_delete_same update_conv' split: option.splits)
    next
      case False
      from IH have "map_option Inr (map_of ps' k) =
               (case (if k \<in> set fs then map_of (?h1 ! a) k else None) of
                  None \<Rightarrow> map_option Inr (map_of (AList.update f v ps) k)
                | Some arr \<Rightarrow> Some (first_row_first_element arr))" by blast
      then show ?thesis using False
        by (auto simp: h1a map_of_delete_other update_conv' split: option.splits)
    qed
    from len frame copy keys vals show ?thesis by blast
  qed
qed

lemma params_loop_total:
  assumes "\<forall>k \<in> set fs. \<forall>arr. map_of (h ! a) k = Some arr \<longrightarrow> (\<exists>v. first_row_first_element arr = Inr v)"
    and "a < length h"
  shows "\<exists>r. params_loop fs ps a h = Inr r"
  using assms
proof (induction fs arbitrary: ps h)
  case Nil
  then show ?case by simp
next
  case (Cons f fs)
  show ?case
  proof (cases "map_of (h ! a) f")
    case None
    with Cons show ?thesis by simp
  next
    case (Some arr)
    with Cons.prems obtain v where v: "first_row_first_element arr = Inr v" by auto
    let ?h1 = "h[a := AList.delete f (h ! a)]"
    have h1a: "?h1 ! a = AList.delete f (h ! a)" using Cons.prems(2) by simp
    have "\<forall>k \<in> set fs. \<forall>arr. map_of (?h1 ! a) k = Some arr \<longrightarrow> (\<exists>v. first_row_first_element arr = Inr v)"
    proof (intro ballI allI impI)
      fix k arr' assume k: "k \<in> set fs" and m: "map_of (?h1 ! a) k = Some arr'"
      from m have "k \<noteq> f" by (auto simp: h1a map_of_delete_same)
      with m have "map_of (h ! a) k = Some arr'" by (simp add: h1a map_of_delete_other)
      with Cons.prems(1) k show "\<exists>v. first_row_first_element arr' = Inr v" by auto
    qed
    moreover have "a < length ?h1" using Cons.prems(2) by simp
    ultimately have "\<exists>r. params_loop fs (AList.update f v ps) a ?h1 = Inr r"
      by (rule Cons.IH)
    with Some v show ?thesis by simp
  qed
qed

lemma params_loop_error:
  "params_loop fs ps a h = Inl e \<Longrightarrow> e = IndexError \<or> e = TypeError"
proof (induction fs arbitrary: ps h)
  case Nil
  then show ?case by simp
next
  case (Cons f fs)
  then show ?case
    by (auto simp: and_then_eq_Inl split: option.splits dest: first_row_first_element_error)
qed

lemma helper_loop_frame:
  assumes run: "params_loop (map fst d) d (length st) (st @ [kw]) = Inr (ps, st')"
  shows "take (length st) st' = st \<and> length st' = Suc (length st)
       \<and> st' ! length st = filter (\<lambda>kv. fst kv \<notin> fst ` set d) kw
       \<and> map fst ps = map fst d
       \<and> (\<forall>k. map_option Inr (map_of ps k) =
               (case (if k \<in> fst ` set d then map_of kw k else None) of
                  None \<Rightarrow> map_option Inr (map_of d k)
                | Some arr \<Rightarrow> Some (first_row_first_element arr)))"
proof -
  have a: "length st < length (st @ [kw])" by simp
  note L = params_loop_Inr [OF run a]
  from L have len: "length st' = Suc (length st)" by simp
  from L have fr: "\<forall>b. b \<noteq> length st \<longrightarrow> st' ! b = (st @ [kw]) ! b" by blast
  have tk: "take (length st) st' = st"
  proof (rule nth_equalityI)
    show "length (take (length st) st') = length st" using len by simp
  next
    fix i assume "i < length (take (length st) st')"
    then have i: "i < length st" by simp
    with fr have "st' ! i = (st @ [kw]) ! i" by simp
    with i show "take (length st) st' ! i = st ! i" by (simp add: nth_append)
  qed
  from L have cp: "st' ! length st = filter (\<lambda>kv. fst kv \<notin> fst ` set d) kw" by simp
  from L have ks: "map fst ps = map fst d" by simp
  from L have vs: "\<forall>k. map_option Inr (map_of ps k) =
               (case (if k \<in> fst ` set d then map_of kw k else None) of
                  None \<Rightarrow> map_option Inr (map_of d k)
                | Some arr \<Rightarrow> Some (first_row_first_element arr))" by simp
  from tk len cp ks vs show ?thesis by blast
qed

text \<open>Claim C2. Let every recognised key that the batch holds have a tensor with a first
  row and a first element in it. Then each helper returns, for whatever default
  dictionary its provider gives, a dictionary with the keys of the defaults in their
  order; a key of the defaults that the batch holds is set to the first element of the
  first row of its tensor, every other key of the defaults keeps its default, and a key
  of the batch that is not a key of the defaults changes nothing and is not added.\<close>

theorem parameter_extraction:
  assumes ok: "list_all (\<lambda>k. case map_of inputs k of None \<Rightarrow> True
                             | Some arr \<Rightarrow> \<not> isl (first_row_first_element arr))
                 (map fst defaults)"
  shows "\<exists>ps st'. sampling_params_from_triton_inputs defaults inputs st = Inr (ps, st')
           \<and> length_params_from_triton_inputs defaults inputs st = Inr (ps, st')
           \<and> map fst ps = map fst defaults
           \<and> (\<forall>k. map_option Inr (map_of ps k) =
                 (case (if k \<in> fst ` set defaults then map_of inputs k else None) of
                    None \<Rightarrow> map_option Inr (map_of defaults k)
                  | Some arr \<Rightarrow> Some (first_row_first_element arr)))"
proof -
  have "\<forall>k \<in> set (map fst defaults). \<forall>arr. map_of ((st @ [inputs]) ! length st) k = Some arr
          \<longrightarrow> (\<exists>v. first_row_first_element arr = Inr v)"
  proof (intro ballI allI impI)
    fix k arr
    assume k: "k \<in> set (map fst defaults)"
      and m: "map_of ((st @ [inputs]) ! length st) k = Some arr"
    from ok k have "case map_of inputs k of None \<Rightarrow> True
                    | Some arr \<Rightarrow> \<not> isl (first_row_first_element arr)"
      by (auto simp: list_all_iff)
    with m have "\<not> isl (first_row_first_element arr)" by simp
    then show "\<exists>v. first_row_first_element arr = Inr v"
      by (cases "first_row_first_element arr") simp_all
  qed
  moreover have "length st < length (st @ [inputs])" by simp
  ultimately obtain r where "params_loop (map fst defaults) defaults (length st) (st @ [inputs]) = Inr r"
    using params_loop_total by blast
  then obtain ps st' where
    run: "params_loop (map fst defaults) defaults (length st) (st @ [inputs]) = Inr (ps, st')"
    by (cases r) auto
  from helper_loop_frame [OF run] run show ?thesis
    by (simp add: sampling_params_from_triton_inputs_def length_params_from_triton_inputs_def)
qed

text \<open>The theorem at a batch that supplies \<^verbatim>\<open>temperature\<close> as \<^verbatim>\<open>[[0.7]]\<close> and a key
  the defaults do not know.\<close>

theorem parameter_extraction_witness:
  "list_all (\<lambda>k. case map_of [(''temperature'', \<lparr>nd_dtype = np_single, nd_shape = [1, 1], nd_data = [SFloat 0.7]\<rparr>),
                              (''unknown'', \<lparr>nd_dtype = np_int, nd_shape = [1, 1], nd_data = [SInt 3]\<rparr>)] k of
                    None \<Rightarrow> True
                  | Some arr \<Rightarrow> \<not> isl (first_row_first_element arr))
     (map fst [(''temperature'', PFloat 1), (''top_k'', PInt 0)])
   \<and> sampling_params_from_triton_inputs [(''temperature'', PFloat 1), (''top_k'', PInt 0)]
       [(''temperature'', \<lparr>nd_dtype = np_single, nd_shape = [1, 1], nd_data = [SFloat 0.7]\<rparr>),
        (''unknown'', \<lparr>nd_dtype = np_int, nd_shape = [1, 1], nd_data = [SInt 3]\<rparr>)] []
     = Inr ([(''temperature'', PNumpy np_single (SFloat 0.7)), (''top_k'', PInt 0)],
            [[(''unknown'', \<lparr>nd_dtype = np_int, nd_shape = [1, 1], nd_data = [SInt 3]\<rparr>)]])"
  using parameter_extraction
    [of "[(''temperature'', \<lparr>nd_dtype = np_single, nd_shape = [1, 1], nd_data = [SFloat 0.7]\<rparr>),
          (''unknown'', \<lparr>nd_dtype = np_int, nd_shape = [1, 1], nd_data = [SInt 3]\<rparr>)]"
        "[(''temperature'', PFloat 1), (''top_k'', PInt 0)]" "[]"]
  by (simp add: sampling_params_from_triton_inputs_def first_row_first_element_def
      ndarray_getitem0_def ndarray_element_def)

text \<open>Where the hypothesis fails the subscript raises: a recognised key whose tensor has an
  empty row ends the helper with \<^verbatim>\<open>IndexError\<close>.\<close>

lemma parameter_extraction_empty_row:
  "sampling_params_from_triton_inputs [(''end_strings'', PList [PStr [60]])]
     [(''end_strings'', \<lparr>nd_dtype = np_bytes, nd_shape = [1, 0], nd_data = []\<rparr>)] []
   = Inl IndexError"
  by (simp add: sampling_params_from_triton_inputs_def first_row_first_element_def
      ndarray_getitem0_def)

text \<open>Claim C10. A helper call leaves every dictionary that was in the store before the
  call as it was, the caller's among them; the keys it pops are gone from its own new
  dictionary only. In \<^verbatim>\<open>triton_infer_fn\<close> the dictionary \<^verbatim>\<open>inputs\<close> (address 0) holds,
  after both calls, every input but the prompts; the sampling helper's copy (address 1)
  and the length helper's copy (address 2) have each lost the keys of their own defaults;
  and the length parameters are read from all the inputs but the prompts, also from a key
  that the sampling helper popped.\<close>

theorem helpers_leave_inputs_unchanged:
  "(sampling_params_from_triton_inputs sdef kw st = Inr (ps, st') \<longrightarrow>
      take (length st) st' = st \<and> length st' = Suc (length st)
      \<and> st' ! length st = filter (\<lambda>kv. fst kv \<notin> fst ` set sdef) kw)
   \<and> (length_params_from_triton_inputs ldef kwl stl = Inr (psl, stl') \<longrightarrow>
      take (length stl) stl' = stl \<and> length stl' = Suc (length stl)
      \<and> stl' ! length stl = filter (\<lambda>kv. fst kv \<notin> fst ` set ldef) kwl)
   \<and> (request_parameters sdef ldef inputs = Inr (strs, sp, lp, h) \<longrightarrow>
      length h = 3
      \<and> h ! 0 = AList.delete ''prompts'' inputs
      \<and> h ! 1 = filter (\<lambda>kv. fst kv \<notin> fst ` set sdef) (h ! 0)
      \<and> h ! 2 = filter (\<lambda>kv. fst kv \<notin> fst ` set ldef) (h ! 0)
      \<and> (\<forall>k. map_option Inr (map_of lp k) =
             (case (if k \<in> fst ` set ldef then map_of (h ! 0) k else None) of
                None \<Rightarrow> map_option Inr (map_of ldef k)
              | Some arr \<Rightarrow> Some (first_row_first_element arr))))"
proof (intro conjI impI)
  assume "sampling_params_from_triton_inputs sdef kw st = Inr (ps, st')"
  then have "params_loop (map fst sdef) sdef (length st) (st @ [kw]) = Inr (ps, st')"
    by (simp add: sampling_params_from_triton_inputs_def)
  from helper_loop_frame [OF this]
  show "take (length st) st' = st" "length st' = Suc (length st)"
    "st' ! length st = filter (\<lambda>kv. fst kv \<notin> fst ` set sdef) kw"
    by simp_all
next
  assume "length_params_from_triton_inputs ldef kwl stl = Inr (psl, stl')"
  then have "params_loop (map fst ldef) ldef (length stl) (stl @ [kwl]) = Inr (psl, stl')"
    by (simp add: length_params_from_triton_inputs_def)
  from helper_loop_frame [OF this]
  show "take (length stl) stl' = stl" "length stl' = Suc (length stl)"
    "stl' ! length stl = filter (\<lambda>kv. fst kv \<notin> fst ` set ldef) kwl"
    by simp_all
next
  assume rp: "request_parameters sdef ldef inputs = Inr (strs, sp, lp, h)"
  let ?h1 = "[AList.delete ''prompts'' inputs]"
  from rp obtain h2 where
    s: "params_loop (map fst sdef) sdef (length ?h1) (?h1 @ [?h1 ! 0]) = Inr (sp, h2)"
    and l: "params_loop (map fst ldef) ldef (length h2) (h2 @ [h2 ! 0]) = Inr (lp, h)"
    by (auto simp: request_parameters_def and_then_eq_Inr
        sampling_params_from_triton_inputs_def length_params_from_triton_inputs_def)
  note S = helper_loop_frame [OF s]
  note L = helper_loop_frame [OF l]
  from S have len2: "length h2 = 2" by simp
  from S have "take 1 h2 = ?h1" by simp
  then have h20: "h2 ! 0 = AList.delete ''prompts'' inputs"
    by (metis nth_Cons_0 nth_take zero_less_one)
  from S have h21: "h2 ! 1 = filter (\<lambda>kv. fst kv \<notin> fst ` set sdef) (AList.delete ''prompts'' inputs)"
    by simp
  from L len2 have len3: "length h = 3" by simp
  from L len2 have tk: "take 2 h = h2" by simp
  have h0: "h ! 0 = AList.delete ''prompts'' inputs"
    using tk h20 by (metis nth_take zero_less_numeral)
  have h1: "h ! 1 = filter (\<lambda>kv. fst kv \<notin> fst ` set sdef) (h ! 0)"
    using tk h21 h0 by (metis nth_take one_less_numeral_iff semiring_norm(76))
  from L len2 h20 h0 have h2': "h ! 2 = filter (\<lambda>kv. fst kv \<notin> fst ` set ldef) (h ! 0)"
    by simp
  from L h20 h0 have vals: "\<forall>k. map_option Inr (map_of lp k) =
             (case (if k \<in> fst ` set ldef then map_of (h ! 0) k else None) of
                None \<Rightarrow> map_option Inr (map_of ldef k)
              | Some arr \<Rightarrow> Some (first_row_first_element arr))"
    by simp
  from len3 h0 h1 h2' vals
  show "length h = 3" "h ! 0 = AList.delete ''prompts'' inputs"
    "h ! 1 = filter (\<lambda>kv. fst kv \<notin> fst ` set sdef) (h ! 0)"
    "h ! 2 = filter (\<lambda>kv. fst kv \<notin> fst ` set ldef) (h ! 0)"
    "\<forall>k. map_option Inr (map_of lp k) =
             (case (if k \<in> fst ` set ldef then map_of (h ! 0) k else None) of
                None \<Rightarrow> map_option Inr (map_of ldef k)
              | Some arr \<Rightarrow> Some (first_row_first_element arr))"
    by simp_all
qed

text \<open>The theorem at a request whose key \<^verbatim>\<open>shared\<close> is a key of both default
  dictionaries: both helpers read it.\<close>

theorem helpers_leave_inputs_unchanged_witness:
  "sampling_params_from_triton_inputs [(''temperature'', PFloat 1), (''shared'', PInt 0)]
     [(''shared'', \<lparr>nd_dtype = np_int, nd_shape = [1, 1], nd_data = [SInt 7]\<rparr>)]
     [[(''shared'', \<lparr>nd_dtype = np_int, nd_shape = [1, 1], nd_data = [SInt 7]\<rparr>)]]
   = Inr ([(''temperature'', PFloat 1), (''shared'', PNumpy np_int (SInt 7))],
          [[(''shared'', \<lparr>nd_dtype = np_int, nd_shape = [1, 1], nd_data = [SInt 7]\<rparr>)], []])
   \<and> length_params_from_triton_inputs [(''max_length'', PInt 30), (''shared'', PInt 0)]
     [(''shared'', \<lparr>nd_dtype = np_int, nd_shape = [1, 1], nd_data = [SInt 7]\<rparr>)]
     [[(''shared'', \<lparr>nd_dtype = np_int, nd_shape = [1, 1], nd_data = [SInt 7]\<rparr>)], []]
   = Inr ([(''max_length'', PInt 30), (''shared'', PNumpy np_int (SInt 7))],
          [[(''shared'', \<lparr>nd_dtype = np_int, nd_shape = [1, 1], nd_data = [SInt 7]\<rparr>)], [], []])
   \<and> request_parameters [(''temperature'', PFloat 1), (''shared'', PInt 0)]
       [(''max_length'', PInt 30), (''shared'', PInt 0)]
       [(''prompts'', \<lparr>nd_dtype = np_bytes, nd_shape = [1, 1], nd_data = [SBytes [72, 105]]\<rparr>),
        (''shared'', \<lparr>nd_dtype = np_int, nd_shape = [1, 1], nd_data = [SInt 7]\<rparr>)]
   = Inr ([[72, 105]],
          [(''temperature'', PFloat 1), (''shared'', PNumpy np_int (SInt 7))],
          [(''max_length'', PInt 30), (''shared'', PNumpy np_int (SInt 7))],
          [[(''shared'', \<lparr>nd_dtype = np_int, nd_shape = [1, 1], nd_data = [SInt 7]\<rparr>)], [], []])"
  using helpers_leave_inputs_unchanged
    [where sdef = "[(''temperature'', PFloat 1), (''shared'', PInt 0)]"
       and ldef = "[(''max_length'', PInt 30), (''shared'', PInt 0)]"
       and kw = "[(''shared'', \<lparr>nd_dtype = np_int, nd_shape = [1, 1], nd_data = [SInt 7]\<rparr>)]"
       and st = "[[(''shared'', \<lparr>nd_dtype = np_int, nd_shape = [1, 1], nd_data = [SInt 7]\<rparr>)]]"
       and kwl = "[(''shared'', \<lparr>nd_dtype = np_int, nd_shape = [1, 1], nd_data = [SInt 7]\<rparr>)]"
       and stl = "[[(''shared'', \<lparr>nd_dtype = np_int, nd_shape = [1, 1], nd_data = [SInt 7]\<rparr>)], []]"
       and inputs = "[(''prompts'', \<lparr>nd_dtype = np_bytes, nd_shape = [1, 1], nd_data = [SBytes [72, 105]]\<rparr>),
                      (''shared'', \<lparr>nd_dtype = np_int, nd_shape = [1, 1], nd_data = [SInt 7]\<rparr>)]"]
  by (simp add: request_parameters_def sampling_params_from_triton_inputs_def
      length_params_from_triton_inputs_def first_row_first_element_def ndarray_getitem0_def
      ndarray_element_def
      dict_getitem_def str_ndarray2list_def)

lemma unloaded_never_returns:
  "model self = None \<Longrightarrow> \<exists>e. triton_infer_fn self sdef ldef inputs = Inl e"
  by (cases "request_parameters sdef ldef inputs")
     (auto simp: triton_infer_fn_def model_output_of_def)

text \<open>A request without prompts fails before the model is read, whatever the instance.\<close>

lemma request_without_prompts:
  "map_of inputs ''prompts'' = None \<Longrightarrow> triton_infer_fn self sdef ldef inputs = Inl KeyError"
  by (simp add: triton_infer_fn_def model_output_of_def request_parameters_def dict_getitem_def)

text \<open>Claim C7. When the checkpoint path does not exist, the constructor returns an
  instance whose attribute \<^verbatim>\<open>model\<close> is not set. No call of \<^verbatim>\<open>triton_infer_fn\<close> on it
  returns normally, and a call whose request is decoded (lines 163 to 165) raises
  \<^verbatim>\<open>AttributeError\<close> where line 167 reads \<^verbatim>\<open>self.model\<close>.\<close>

theorem missing_checkpoint_unloaded:
  assumes "\<not> path_exists filepath"
  shows "init path_exists restore filepath num_devices num_nodes
           = Inr \<lparr>nemo_checkpoint_filepath = filepath, model = None\<rparr>
       \<and> (\<exists>e. triton_infer_fn \<lparr>nemo_checkpoint_filepath = filepath, model = None\<rparr>
                 sdef ldef inputs = Inl e)
       \<and> (request_parameters sdef ldef inputs = Inr args \<longrightarrow>
            triton_infer_fn \<lparr>nemo_checkpoint_filepath = filepath, model = None\<rparr>
              sdef ldef inputs = Inl AttributeError)"
  using assms unloaded_never_returns [of "\<lparr>nemo_checkpoint_filepath = filepath, model = None\<rparr>" sdef ldef inputs]
  by (auto simp: init_def load_def triton_infer_fn_def model_output_of_def)

text \<open>The theorem on a file system with no file, at a request of one prompt.\<close>

theorem missing_checkpoint_unloaded_witness:
  "\<not> empty_filesystem ''megatron.nemo''
   \<and> init empty_filesystem failing_restore ''megatron.nemo'' 1 1
       = Inr \<lparr>nemo_checkpoint_filepath = ''megatron.nemo'', model = None\<rparr>
   \<and> request_parameters [] []
         [(''prompts'', \<lparr>nd_dtype = np_bytes, nd_shape = [1, 1], nd_data = [SBytes [72, 105]]\<rparr>)]
       = Inr ([[72, 105]], [], [], [[], [], []])
   \<and> triton_infer_fn \<lparr>nemo_checkpoint_filepath = ''megatron.nemo'', model = None\<rparr> [] []
         [(''prompts'', \<lparr>nd_dtype = np_bytes, nd_shape = [1, 1], nd_data = [SBytes [72, 105]]\<rparr>)]
       = Inl AttributeError"
  using missing_checkpoint_unloaded
    [where path_exists = empty_filesystem and filepath = "''megatron.nemo''"
       and restore = failing_restore and num_devices = 1 and num_nodes = 1
       and sdef = "[]" and ldef = "[]"
       and inputs = "[(''prompts'', \<lparr>nd_dtype = np_bytes, nd_shape = [1, 1],
                                     nd_data = [SBytes [72, 105]]\<rparr>)]"
       and args = "([[72, 105]], [], [], [[], [], []])"]
  by (simp add: empty_filesystem_def request_parameters_def
      sampling_params_from_triton_inputs_def length_params_from_triton_inputs_def
      dict_getitem_def str_ndarray2list_def)

section \<open>Properties of the inference adapter\<close>

lemma triton_output_loop_other:
  "triton_output_loop mo items out = Inr res \<Longrightarrow> k \<notin> fst ` set items \<Longrightarrow>
   map_of res k = map_of out k"
proof (induction items arbitrary: out)
  case Nil
  then show ?case by simp
next
  case (Cons kv items)
  obtain k' v where kv: "kv = (k', v)" by (cases kv)
  with Cons.prems obtain arr where
    run: "triton_output_loop mo items (AList.update k' arr out) = Inr res"
    by (auto simp: and_then_eq_Inr)
  from Cons.prems kv have "k \<notin> fst ` set items" "k \<noteq> k'" by auto
  with Cons.IH [OF run] show ?case by (simp add: update_conv')
qed

lemma triton_output_loop_keys:
  "triton_output_loop mo items out = Inr res \<Longrightarrow>
   fst ` set res = fst ` set out \<union> fst ` set items"
proof (induction items arbitrary: out)
  case Nil
  then show ?case by simp
next
  case (Cons kv items)
  obtain k' v where kv: "kv = (k', v)" by (cases kv)
  with Cons.prems obtain arr where
    run: "triton_output_loop mo items (AList.update k' arr out) = Inr res"
    by (auto simp: and_then_eq_Inr)
  from Cons.IH [OF run] kv show ?case by (auto simp: dom_update)
qed

lemma triton_output_loop_field:
  "triton_output_loop mo items out = Inr res \<Longrightarrow> distinct (map fst items) \<Longrightarrow>
   (k, v) \<in> set items \<Longrightarrow>
   \<exists>arr. triton_output_field mo k v = Inr arr \<and> map_of res k = Some arr"
proof (induction items arbitrary: out)
  case Nil
  then show ?case by simp
next
  case (Cons kv items)
  obtain k' v' where kv: "kv = (k', v')" by (cases kv)
  with Cons.prems obtain arr where
    f: "triton_output_field mo k' v' = Inr arr" and
    run: "triton_output_loop mo items (AList.update k' arr out) = Inr res"
    by (auto simp: and_then_eq_Inr)
  from Cons.prems kv have d: "distinct (map fst items)" and nk: "k' \<notin> fst ` set items"
    by auto
  show ?case
  proof (cases "(k, v) = (k', v')")
    case True
    from triton_output_loop_other [OF run nk] have "map_of res k' = Some arr"
      by (simp add: update_conv')
    with True f show ?thesis by simp
  next
    case False
    with Cons.prems kv have "(k, v) \<in> set items" by auto
    from Cons.IH [OF run d this] show ?thesis .
  qed
qed

lemma blank_field_cases:
  assumes "blank_field k = Inr blank"
  shows "(k = ''sentences'' \<and> blank = PStr [])
       \<or> (k = ''tokens'' \<and> blank = PList [PStr []])
       \<or> (k = ''logprob'' \<and> blank = PList [PFloat 0])
       \<or> (k = ''full_logprob'' \<and> blank = PList [PFloat 0])
       \<or> (k = ''token_ids'' \<and> blank = PList [PInt 0])
       \<or> (k = ''offsets'' \<and> blank = PList [PInt 0])"
  using assms
  by (auto simp: blank_field_def BLANK_OUTPUTTYPE_def dict_getitem_def split: if_splits)

lemma triton_output_field_key:
  "triton_output_field mo k v = Inr arr \<Longrightarrow>
   k \<in> {''sentences'', ''tokens'', ''logprob'', ''full_logprob'', ''token_ids'', ''offsets''}"
proof -
  assume "triton_output_field mo k v = Inr arr"
  then obtain blank where "blank_field k = Inr blank"
    unfolding triton_output_field_def by (cases "blank_field k") simp_all
  from blank_field_cases [OF this] show ?thesis by auto
qed

lemma concat_replicate_replicate:
  "concat (replicate d (replicate p x)) = replicate (d * p) x"
  by (induction d) (simp_all add: replicate_add)

lemma broadcast_aligned_scalar:
  "broadcast_aligned [] sh [x] = Some (replicate (prod_list sh) x)"
  by (induction sh) (simp_all add: concat_replicate_replicate)

lemma broadcast_aligned_one:
  "sh \<noteq> [] \<Longrightarrow> broadcast_aligned [1] sh [x] = Some (replicate (prod_list sh) x)"
proof (induction sh)
  case Nil
  then show ?case by simp
next
  case (Cons d ds)
  show ?case
  proof (cases ds)
    case Nil
    show ?thesis
    proof (cases "d = 1")
      case True
      with Nil show ?thesis by simp
    next
      case False
      with Nil show ?thesis by simp
    qed
  next
    case (Cons d' ds')
    with Cons.IH have "broadcast_aligned [1] ds [x] = Some (replicate (prod_list ds) x)"
      by simp
    with Cons show ?thesis by (simp add: concat_replicate_replicate)
  qed
qed

lemma broadcast_scalar:
  "broadcast_data [] sh [x] = Some (replicate (prod_list sh) x)"
  by (simp add: broadcast_data_def broadcast_aligned_scalar)

lemma broadcast_one:
  "broadcast_data [1] sh [x] = Some (replicate (prod_list sh) x)"
proof (cases "sh = []")
  case True
  then show ?thesis by (simp add: broadcast_data_def)
next
  case False
  then have "strip_leading_ones [1] (length sh) = [1]" by simp
  with broadcast_aligned_one [OF False, of x] show ?thesis
    by (simp only: broadcast_data_def)
qed

lemma for_each_replicate:
  "f x = Inr y \<Longrightarrow> for_each f (replicate n x) = Inr (replicate n y)"
  by (induction n) simp_all

lemma np_full_one_element:
  assumes shape: "nested_shape v = Inr [] \<or> nested_shape v = Inr [1]"
    and leaf: "leaves v = [x]"
    and cast: "np_cast d x = Inr y"
  shows "np_full sh v d =
           Inr \<lparr>nd_dtype = d, nd_shape = sh, nd_data = replicate (prod_list sh) y\<rparr>"
  using shape
proof
  assume "nested_shape v = Inr []"
  then show ?thesis
    by (simp add: np_full_def leaf broadcast_scalar for_each_replicate [of "np_cast d" x y, OF cast])
next
  assume "nested_shape v = Inr [1]"
  then show ?thesis
    by (simp add: np_full_def leaf broadcast_one [unfolded One_nat_def]
        for_each_replicate [of "np_cast d" x y, OF cast])
qed

lemma sequence_map_Inr: "sequence (map (\<lambda>x. Inr (g x)) xs) = Inr (map g xs)"
  by (induction xs) simp_all

lemma nested_shape_list:
  "xs \<noteq> [] \<Longrightarrow>
   nested_shape (PList xs) =
     and_then (sequence (map nested_shape xs)) (\<lambda>ss.
       if list_all (\<lambda>s. s = hd ss) ss then Inr (length xs # hd ss) else Inl ValueError)"
proof (cases xs)
  case Nil
  assume "xs \<noteq> []"
  with Nil show ?thesis by simp
next
  case (Cons a list)
  show ?thesis unfolding Cons by simp
qed

lemma np_array_strings:
  "np_array (PList (map PStr xs)) =
     Inr \<lparr>nd_dtype = result_type (map (\<lambda>x. np_str) xs), nd_shape = [length xs],
          nd_data = map SStr xs\<rparr>"
proof (cases "xs = []")
  case True
  then show ?thesis by (simp add: np_array_def)
next
  case False
  have sq: "sequence (map nested_shape (map PStr xs)) = Inr (map (\<lambda>x. []) xs)"
    using sequence_map_Inr [of "\<lambda>x. []" xs] by (simp add: comp_def)
  have "nested_shape (PList (map PStr xs)) =
          and_then (sequence (map nested_shape (map PStr xs))) (\<lambda>ss.
            if list_all (\<lambda>s. s = hd ss) ss then Inr (length (map PStr xs) # hd ss)
            else Inl ValueError)"
    by (rule nested_shape_list) (simp add: False)
  also have "\<dots> = Inr [length xs]"
    using False by (simp only: sq and_then_Inr) (simp add: list_all_iff hd_map)
  finally have ns: "nested_shape (PList (map PStr xs)) = Inr [length xs]" .
  have lv: "leaves (PList (map PStr xs)) = map SStr xs"
    by (induction xs) simp_all
  have ld: "leaf_dtypes (PList (map PStr xs)) = map (\<lambda>x. np_str) xs"
    by (induction xs) simp_all
  show ?thesis by (simp only: np_array_def ns lv ld and_then_Inr)
qed

lemma np_shape_strings: "np_shape (PList (map PStr ss)) = Inr [length ss]"
  by (simp add: np_shape_def np_array_strings)

lemmas eval_defs =
  triton_output_field_def blank_field_def BLANK_OUTPUTTYPE_def dict_getitem_def
  GetNumpyDtype_simps py_to_numpy_mapping_def cast_output_def np_array_def np_shape_def
  np_full_def broadcast_data_def int_dtype_def to_int64_def wrap_int64_def rstrip_nul_def
  result_type_def utf8_encode_def utf8_encode_char_def tensor_numpy_def tensor_cpu_def
  tensor_float_def

lemmas request_defs =
  triton_infer_fn_def model_output_of_def request_parameters_def
  sampling_params_from_triton_inputs_def length_params_from_triton_inputs_def
  str_ndarray2list_def

lemma echo_output: "model_output_of echo_instance [] [] hi_request = Inr hi_model_output"
  by (simp add: request_defs eval_defs echo_model_def echo_instance_def hi_request_def
      hi_model_output_def)

lemma echo_response: "triton_infer_fn echo_instance [] [] hi_request = Inr hi_response"
  by (simp add: request_defs eval_defs echo_model_def echo_instance_def hi_request_def
      hi_response_def)

lemma three_output:
  "model_output_of text_instance [] [] three_request = Inr three_model_output"
  by (simp add: request_defs eval_defs text_model_def text_instance_def three_request_def
      three_model_output_def)

lemma three_response_eq:
  "triton_infer_fn text_instance [] [] three_request = Inr three_response"
  by (simp add: request_defs eval_defs text_model_def text_instance_def three_request_def
      three_response_def)

lemma triton_infer_fn_Inr:
  "triton_infer_fn self sdef ldef inputs = Inr out \<longleftrightarrow>
   (\<exists>mo. model_output_of self sdef ldef inputs = Inr mo \<and> triton_output_loop mo mo [] = Inr out)"
  by (simp add: triton_infer_fn_def and_then_eq_Inr)

lemma triton_output_loop_all_keys:
  "triton_output_loop mo items out = Inr res \<Longrightarrow>
   fst ` set items \<subseteq> {''sentences'', ''tokens'', ''logprob'', ''full_logprob'', ''token_ids'', ''offsets''}"
proof (induction items arbitrary: out)
  case Nil
  then show ?case by simp
next
  case (Cons kv items)
  obtain k' v where kv: "kv = (k', v)" by (cases kv)
  with Cons.prems obtain arr where
    f: "triton_output_field mo k' v = Inr arr" and
    run: "triton_output_loop mo items (AList.update k' arr out) = Inr res"
    by (auto simp: and_then_eq_Inr)
  from triton_output_field_key [OF f] Cons.IH [OF run] kv show ?case by simp
qed

text \<open>The branch of line 180. For a field of the output schema and a result whose value
  for \<^verbatim>\<open>sentences\<close> has a shape, the branch returns the array of that shape, of the
  field's element type, that holds the field's placeholder at every position: the empty
  byte string for the two text fields, \<^verbatim>\<open>0.0\<close> for the two log-probability fields,
  \<^verbatim>\<open>0\<close> for the token ids and the offsets.\<close>

lemma null_field_step:
  assumes b: "blank_field k = Inr blank"
    and g: "GetNumpyDtype blank = Inr d"
    and shape: "nested_shape blank = Inr [] \<or> nested_shape blank = Inr [1]"
    and leaf: "leaves blank = [x]"
    and cast: "np_cast d x = Inr y"
    and s: "map_of mo ''sentences'' = Some sentences"
    and n: "np_shape sentences = Inr sh"
  shows "triton_output_field mo k PNone =
           Inr \<lparr>nd_dtype = d, nd_shape = sh, nd_data = replicate (prod_list sh) y\<rparr>"
  unfolding triton_output_field_def
  by (simp add: b g s n dict_getitem_def np_full_one_element [OF shape leaf cast])

lemma blank_field_values:
  "blank_field ''sentences'' = Inr (PStr [])"
  "blank_field ''tokens'' = Inr (PList [PStr []])"
  "blank_field ''logprob'' = Inr (PList [PFloat 0])"
  "blank_field ''full_logprob'' = Inr (PList [PFloat 0])"
  "blank_field ''token_ids'' = Inr (PList [PInt 0])"
  "blank_field ''offsets'' = Inr (PList [PInt 0])"
  by (simp_all add: blank_field_def BLANK_OUTPUTTYPE_def dict_getitem_def)

lemma blank_dtypes:
  "GetNumpyDtype (PStr []) = Inr np_bytes"
  "GetNumpyDtype (PList [PStr []]) = Inr np_bytes"
  "GetNumpyDtype (PList [PFloat 0]) = Inr np_single"
  "GetNumpyDtype (PList [PInt 0]) = Inr np_int"
  by (simp_all add: GetNumpyDtype_simps py_to_numpy_mapping_def dict_getitem_def)

lemma blank_casts:
  "np_cast np_bytes (SStr []) = Inr (SBytes [])"
  "np_cast np_single (SFloat 0) = Inr (SFloat 0)"
  "np_cast np_int (SInt 0) = Inr (SInt 0)"
  by (simp_all add: rstrip_nul_def to_int64_def int_dtype_def wrap_int64_def)

lemma null_field_array:
  assumes key: "k \<in> {''sentences'', ''tokens'', ''logprob'', ''full_logprob'', ''token_ids'',
                      ''offsets''}"
    and s: "map_of mo ''sentences'' = Some sentences"
    and n: "np_shape sentences = Inr sh"
  shows "\<exists>d x. triton_output_field mo k PNone =
                 Inr \<lparr>nd_dtype = d, nd_shape = sh, nd_data = replicate (prod_list sh) x\<rparr>
             \<and> (k \<in> {''sentences'', ''tokens''} \<and> d = np_bytes \<and> x = SBytes []
                \<or> k \<in> {''logprob'', ''full_logprob''} \<and> d = np_single \<and> x = SFloat 0
                \<or> k \<in> {''token_ids'', ''offsets''} \<and> d = np_int \<and> x = SInt 0)"
proof -
  from key
  consider "k = ''sentences''" | "k = ''tokens''" | "k = ''logprob''" | "k = ''full_logprob''"
    | "k = ''token_ids''" | "k = ''offsets''"
    by (elim insertE emptyE)
  then show ?thesis
  proof cases
    case 1
    have "triton_output_field mo k PNone =
            Inr \<lparr>nd_dtype = np_bytes, nd_shape = sh,
                 nd_data = replicate (prod_list sh) (SBytes [])\<rparr>"
      unfolding 1
      by (rule null_field_step [OF blank_field_values(1) blank_dtypes(1) _ _ blank_casts(1) s n])
        simp_all
    with 1 show ?thesis by simp
  next
    case 2
    have "triton_output_field mo k PNone =
            Inr \<lparr>nd_dtype = np_bytes, nd_shape = sh,
                 nd_data = replicate (prod_list sh) (SBytes [])\<rparr>"
      unfolding 2
      by (rule null_field_step [OF blank_field_values(2) blank_dtypes(2) _ _ blank_casts(1) s n])
        simp_all
    with 2 show ?thesis by simp
  next
    case 3
    have "triton_output_field mo k PNone =
            Inr \<lparr>nd_dtype = np_single, nd_shape = sh,
                 nd_data = replicate (prod_list sh) (SFloat 0)\<rparr>"
      unfolding 3
      by (rule null_field_step [OF blank_field_values(3) blank_dtypes(3) _ _ blank_casts(2) s n])
        simp_all
    with 3 show ?thesis by simp
  next
    case 4
    have "triton_output_field mo k PNone =
            Inr \<lparr>nd_dtype = np_single, nd_shape = sh,
                 nd_data = replicate (prod_list sh) (SFloat 0)\<rparr>"
      unfolding 4
      by (rule null_field_step [OF blank_field_values(4) blank_dtypes(3) _ _ blank_casts(2) s n])
        simp_all
    with 4 show ?thesis by simp
  next
    case 5
    have "triton_output_field mo k PNone =
            Inr \<lparr>nd_dtype = np_int, nd_shape = sh,
                 nd_data = replicate (prod_list sh) (SInt 0)\<rparr>"
      unfolding 5
      by (rule null_field_step [OF blank_field_values(5) blank_dtypes(4) _ _ blank_casts(3) s n])
        simp_all
    with 5 show ?thesis by simp
  next
    case 6
    have "triton_output_field mo k PNone =
            Inr \<lparr>nd_dtype = np_int, nd_shape = sh,
                 nd_data = replicate (prod_list sh) (SInt 0)\<rparr>"
      unfolding 6
      by (rule null_field_step [OF blank_field_values(6) blank_dtypes(4) _ _ blank_casts(3) s n])
        simp_all
    with 6 show ?thesis by simp
  qed
qed

text \<open>In a call that returns normally the loop has run that branch for every field whose
  value is \<^verbatim>\<open>None\<close>, so the result holds \<^verbatim>\<open>sentences\<close> and its value has a shape.\<close>

lemma null_field_in_response:
  assumes loop: "triton_output_loop mo mo [] = Inr out"
    and dist: "distinct (map fst mo)"
    and null: "(k, PNone) \<in> set mo"
  shows "\<exists>sentences sh d x.
           map_of mo ''sentences'' = Some sentences \<and> np_shape sentences = Inr sh
         \<and> triton_output_field mo k PNone =
             Inr \<lparr>nd_dtype = d, nd_shape = sh, nd_data = replicate (prod_list sh) x\<rparr>
         \<and> map_of out k =
             Some \<lparr>nd_dtype = d, nd_shape = sh, nd_data = replicate (prod_list sh) x\<rparr>
         \<and> (k \<in> {''sentences'', ''tokens''} \<and> d = np_bytes \<and> x = SBytes []
            \<or> k \<in> {''logprob'', ''full_logprob''} \<and> d = np_single \<and> x = SFloat 0
            \<or> k \<in> {''token_ids'', ''offsets''} \<and> d = np_int \<and> x = SInt 0)"
proof -
  from triton_output_loop_field [OF loop dist null] obtain arr where
    f: "triton_output_field mo k PNone = Inr arr" and o: "map_of out k = Some arr"
    by blast
  note key = triton_output_field_key [OF f]
  from f obtain sentences sh where
    s: "dict_getitem mo ''sentences'' = Inr sentences" and n: "np_shape sentences = Inr sh"
    unfolding triton_output_field_def by (auto simp: and_then_eq_Inr)
  from s have s': "map_of mo ''sentences'' = Some sentences"
    by (simp add: dict_getitem_def split: option.splits)
  define kind where "kind d x \<longleftrightarrow>
      k \<in> {''sentences'', ''tokens''} \<and> d = np_bytes \<and> x = SBytes []
    \<or> k \<in> {''logprob'', ''full_logprob''} \<and> d = np_single \<and> x = SFloat 0
    \<or> k \<in> {''token_ids'', ''offsets''} \<and> d = np_int \<and> x = SInt 0" for d x
  from null_field_array [OF key s' n]
  have "\<exists>d x. triton_output_field mo k PNone =
                 Inr \<lparr>nd_dtype = d, nd_shape = sh, nd_data = replicate (prod_list sh) x\<rparr>
             \<and> kind d x"
    unfolding kind_def .
  then obtain d x where
    a: "triton_output_field mo k PNone =
          Inr \<lparr>nd_dtype = d, nd_shape = sh, nd_data = replicate (prod_list sh) x\<rparr>"
    and kind: "kind d x"
    by blast
  from a f o have o': "map_of out k =
      Some \<lparr>nd_dtype = d, nd_shape = sh, nd_data = replicate (prod_list sh) x\<rparr>"
    by simp
  show ?thesis
  proof (intro exI conjI)
    show "map_of mo ''sentences'' = Some sentences" by (rule s')
    show "np_shape sentences = Inr sh" by (rule n)
    show "triton_output_field mo k PNone =
          Inr \<lparr>nd_dtype = d, nd_shape = sh, nd_data = replicate (prod_list sh) x\<rparr>"
      by (rule a)
    show "map_of out k =
      Some \<lparr>nd_dtype = d, nd_shape = sh, nd_data = replicate (prod_list sh) x\<rparr>"
      by (rule o')
    show "k \<in> {''sentences'', ''tokens''} \<and> d = np_bytes \<and> x = SBytes []
        \<or> k \<in> {''logprob'', ''full_logprob''} \<and> d = np_single \<and> x = SFloat 0
        \<or> k \<in> {''token_ids'', ''offsets''} \<and> d = np_int \<and> x = SInt 0"
      using kind unfolding kind_def .
  qed
qed

lemma keys_exactly: "A = B \<Longrightarrow> B \<subseteq> K \<Longrightarrow> K \<subseteq> B \<Longrightarrow> A = K"
  by auto

text \<open>Claim C1. The result of \<^verbatim>\<open>generate\<close> has the declared type \<^verbatim>\<open>OutputType\<close>: a
  dictionary (its keys are distinct) that holds the six keys of the output schema, the
  value of a key being \<^verbatim>\<open>None\<close> when the model does not produce the field. A call of
  \<^verbatim>\<open>triton_infer_fn\<close> that returns normally then returns a dictionary with exactly the
  six keys of the output schema, and a key whose value in the result is \<^verbatim>\<open>None\<close> holds
  the field's placeholder broadcast to the shape of \<^verbatim>\<open>sentences\<close>.\<close>

theorem response_keys:
  assumes run: "triton_infer_fn self sdef ldef inputs = Inr out"
    and mo: "model_output_of self sdef ldef inputs = Inr mo"
    and typed: "{''sentences'', ''tokens'', ''logprob'', ''full_logprob'', ''token_ids'',
                 ''offsets''} \<subseteq> fst ` set mo"
    and dist: "distinct (map fst mo)"
  shows "fst ` set out = {''sentences'', ''tokens'', ''logprob'', ''full_logprob'',
                           ''token_ids'', ''offsets''}
       \<and> fst ` set out = fst ` set mo
       \<and> (\<forall>k. (k, PNone) \<in> set mo \<longrightarrow>
            (\<exists>sentences sh d x.
               map_of mo ''sentences'' = Some sentences \<and> np_shape sentences = Inr sh
             \<and> map_of out k =
                 Some \<lparr>nd_dtype = d, nd_shape = sh, nd_data = replicate (prod_list sh) x\<rparr>
             \<and> (k \<in> {''sentences'', ''tokens''} \<and> d = np_bytes \<and> x = SBytes []
                \<or> k \<in> {''logprob'', ''full_logprob''} \<and> d = np_single \<and> x = SFloat 0
                \<or> k \<in> {''token_ids'', ''offsets''} \<and> d = np_int \<and> x = SInt 0)))"
proof -
  from run mo have loop: "triton_output_loop mo mo [] = Inr out"
    by (simp add: triton_infer_fn_def)
  from triton_output_loop_keys [OF loop] have eq: "fst ` set out = fst ` set mo" by simp
  note sub = triton_output_loop_all_keys [OF loop]
  have all: "fst ` set out = {''sentences'', ''tokens'', ''logprob'', ''full_logprob'',
                              ''token_ids'', ''offsets''}"
    by (rule keys_exactly [OF eq sub typed])
  have fill: "\<forall>k. (k, PNone) \<in> set mo \<longrightarrow>
            (\<exists>sentences sh d x.
               map_of mo ''sentences'' = Some sentences \<and> np_shape sentences = Inr sh
             \<and> map_of out k =
                 Some \<lparr>nd_dtype = d, nd_shape = sh, nd_data = replicate (prod_list sh) x\<rparr>
             \<and> (k \<in> {''sentences'', ''tokens''} \<and> d = np_bytes \<and> x = SBytes []
                \<or> k \<in> {''logprob'', ''full_logprob''} \<and> d = np_single \<and> x = SFloat 0
                \<or> k \<in> {''token_ids'', ''offsets''} \<and> d = np_int \<and> x = SInt 0))"
  proof (intro allI impI)
    fix k
    assume null: "(k, PNone) \<in> set mo"
    from null_field_in_response [OF loop dist null]
    show "\<exists>sentences sh d x.
               map_of mo ''sentences'' = Some sentences \<and> np_shape sentences = Inr sh
             \<and> map_of out k =
                 Some \<lparr>nd_dtype = d, nd_shape = sh, nd_data = replicate (prod_list sh) x\<rparr>
             \<and> (k \<in> {''sentences'', ''tokens''} \<and> d = np_bytes \<and> x = SBytes []
                \<or> k \<in> {''logprob'', ''full_logprob''} \<and> d = np_single \<and> x = SFloat 0
                \<or> k \<in> {''token_ids'', ''offsets''} \<and> d = np_int \<and> x = SInt 0)"
      by (elim exE conjE, intro exI conjI)
  qed
  show ?thesis
  proof (intro conjI)
    show "fst ` set out = {''sentences'', ''tokens'', ''logprob'', ''full_logprob'',
                           ''token_ids'', ''offsets''}" by (rule all)
    show "fst ` set out = fst ` set mo" by (rule eq)
    show "\<forall>k. (k, PNone) \<in> set mo \<longrightarrow>
            (\<exists>sentences sh d x.
               map_of mo ''sentences'' = Some sentences \<and> np_shape sentences = Inr sh
             \<and> map_of out k =
                 Some \<lparr>nd_dtype = d, nd_shape = sh, nd_data = replicate (prod_list sh) x\<rparr>
             \<and> (k \<in> {''sentences'', ''tokens''} \<and> d = np_bytes \<and> x = SBytes []
                \<or> k \<in> {''logprob'', ''full_logprob''} \<and> d = np_single \<and> x = SFloat 0
                \<or> k \<in> {''token_ids'', ''offsets''} \<and> d = np_int \<and> x = SInt 0))"
      by (rule fill)
  qed
qed

text \<open>The theorem at a request of three prompts and a model that produces the text only:
  the response holds the six keys, five of them filled with placeholders.\<close>

theorem response_keys_witness:
  "triton_infer_fn text_instance [] [] three_request = Inr three_response
   \<and> model_output_of text_instance [] [] three_request = Inr three_model_output
   \<and> {''sentences'', ''tokens'', ''logprob'', ''full_logprob'', ''token_ids'', ''offsets''}
       \<subseteq> fst ` set three_model_output
   \<and> distinct (map fst three_model_output)
   \<and> map fst three_response
       = [''sentences'', ''tokens'', ''logprob'', ''full_logprob'', ''token_ids'', ''offsets'']
   \<and> (''offsets'', PNone) \<in> set three_model_output
   \<and> map_of three_response ''offsets''
       = Some \<lparr>nd_dtype = np_int, nd_shape = [3], nd_data = replicate 3 (SInt 0)\<rparr>"
  using response_keys [of text_instance "[]" "[]" three_request three_response
      three_model_output]
  by (simp add: three_response_eq three_output)
     (simp add: three_response_def three_model_output_def numeral_3_eq_3)

text \<open>The loop runs over the items of the result and adds no key: for a result that holds
  the key \<^verbatim>\<open>sentences\<close> only, which the declared type excludes, the response holds that
  key only.\<close>

lemma result_of_one_key:
  "triton_infer_fn
     \<lparr>nemo_checkpoint_filepath = ''megatron.nemo'', model = Some sentences_only_model\<rparr>
     [] [] hi_request
   = Inr [(''sentences'', \<lparr>nd_dtype = np_bytes, nd_shape = [1], nd_data = [SBytes [72, 105]]\<rparr>)]"
  by (simp add: hi_request_def triton_infer_fn_def model_output_of_def sentences_only_model_def
      request_parameters_def sampling_params_from_triton_inputs_def
      length_params_from_triton_inputs_def str_ndarray2list_def
      triton_output_field_def blank_field_def BLANK_OUTPUTTYPE_def dict_getitem_def
      GetNumpyDtype_simps cast_output_def np_array_def result_type_def utf8_encode_def
      utf8_encode_char_def)

text \<open>Claim C3. Let the model's result (a dictionary, so its keys are distinct) give a field
  the value \<^verbatim>\<open>None\<close>. In a call that returns normally, the result has the field
  \<^verbatim>\<open>sentences\<close>, and the response's array for the null field has the shape numpy finds in
  the value of \<^verbatim>\<open>sentences\<close>, which for a list of \<open>n\<close> sentences is \<open>(n,)\<close>, the element
  type of the field in the output schema, and the field's placeholder, converted to that
  type, at every position: the empty byte string for the two text fields, \<^verbatim>\<open>0.0\<close> for
  the two log-probability fields, \<^verbatim>\<open>0\<close> for the token ids and the offsets. And the fill
  itself does not raise: for every field of the output schema and every result whose
  \<^verbatim>\<open>sentences\<close> has a shape, the branch of line 180 returns that array.\<close>

theorem null_field_filled:
  "(triton_infer_fn self sdef ldef inputs = Inr out
      \<and> model_output_of self sdef ldef inputs = Inr mo
      \<and> distinct (map fst mo) \<and> (k, PNone) \<in> set mo \<longrightarrow>
    (\<exists>sentences sh d x.
        map_of mo ''sentences'' = Some sentences \<and> np_shape sentences = Inr sh
      \<and> (\<forall>ss. sentences = PList (map PStr ss) \<longrightarrow> sh = [length ss])
      \<and> map_of out k =
          Some \<lparr>nd_dtype = d, nd_shape = sh, nd_data = replicate (prod_list sh) x\<rparr>
      \<and> (k \<in> {''sentences'', ''tokens''} \<and> d = np_bytes \<and> x = SBytes []
         \<or> k \<in> {''logprob'', ''full_logprob''} \<and> d = np_single \<and> x = SFloat 0
         \<or> k \<in> {''token_ids'', ''offsets''} \<and> d = np_int \<and> x = SInt 0)
      \<and> \<lparr>name = k, shape = [- 1], dtype = d, optional = False\<rparr>
          \<in> set (case get_triton_output of Inr ts \<Rightarrow> ts | Inl e \<Rightarrow> [])))
   \<and> (k' \<in> {''sentences'', ''tokens'', ''logprob'', ''full_logprob'', ''token_ids'', ''offsets''}
      \<and> map_of mo' ''sentences'' = Some sentences' \<and> np_shape sentences' = Inr sh' \<longrightarrow>
      (\<exists>d x. triton_output_field mo' k' PNone =
                Inr \<lparr>nd_dtype = d, nd_shape = sh', nd_data = replicate (prod_list sh') x\<rparr>
            \<and> (k' \<in> {''sentences'', ''tokens''} \<and> d = np_bytes \<and> x = SBytes []
               \<or> k' \<in> {''logprob'', ''full_logprob''} \<and> d = np_single \<and> x = SFloat 0
               \<or> k' \<in> {''token_ids'', ''offsets''} \<and> d = np_int \<and> x = SInt 0)))
   \<and> np_shape (PList (map PStr ss')) = Inr [length ss']"
proof (intro conjI impI)
  assume a: "triton_infer_fn self sdef ldef inputs = Inr out
      \<and> model_output_of self sdef ldef inputs = Inr mo
      \<and> distinct (map fst mo) \<and> (k, PNone) \<in> set mo"
  then have run: "triton_infer_fn self sdef ldef inputs = Inr out"
    and mo: "model_output_of self sdef ldef inputs = Inr mo"
    and dist: "distinct (map fst mo)" and null: "(k, PNone) \<in> set mo"
    by simp_all
  from run mo have loop: "triton_output_loop mo mo [] = Inr out"
    by (simp add: triton_infer_fn_def)
  define kind where "kind d x \<longleftrightarrow>
      k \<in> {''sentences'', ''tokens''} \<and> d = np_bytes \<and> x = SBytes []
    \<or> k \<in> {''logprob'', ''full_logprob''} \<and> d = np_single \<and> x = SFloat 0
    \<or> k \<in> {''token_ids'', ''offsets''} \<and> d = np_int \<and> x = SInt 0" for d x
  from null_field_in_response [OF loop dist null]
  have "\<exists>sentences sh d x.
           map_of mo ''sentences'' = Some sentences \<and> np_shape sentences = Inr sh
         \<and> triton_output_field mo k PNone =
             Inr \<lparr>nd_dtype = d, nd_shape = sh, nd_data = replicate (prod_list sh) x\<rparr>
         \<and> map_of out k =
             Some \<lparr>nd_dtype = d, nd_shape = sh, nd_data = replicate (prod_list sh) x\<rparr>
         \<and> kind d x"
    unfolding kind_def .
  then obtain sentences sh d x where
    s: "map_of mo ''sentences'' = Some sentences" and n: "np_shape sentences = Inr sh"
    and o: "map_of out k =
          Some \<lparr>nd_dtype = d, nd_shape = sh, nd_data = replicate (prod_list sh) x\<rparr>"
    and kind: "kind d x"
    by blast
  have len: "\<forall>ss. sentences = PList (map PStr ss) \<longrightarrow> sh = [length ss]"
    using n by (auto simp: np_shape_strings)
  have schema: "\<lparr>name = k, shape = [- 1], dtype = d, optional = False\<rparr>
          \<in> set (case get_triton_output of Inr ts \<Rightarrow> ts | Inl e \<Rightarrow> [])"
    using kind unfolding kind_def by (auto simp: get_triton_output_value)
  show "\<exists>sentences sh d x.
        map_of mo ''sentences'' = Some sentences \<and> np_shape sentences = Inr sh
      \<and> (\<forall>ss. sentences = PList (map PStr ss) \<longrightarrow> sh = [length ss])
      \<and> map_of out k =
          Some \<lparr>nd_dtype = d, nd_shape = sh, nd_data = replicate (prod_list sh) x\<rparr>
      \<and> (k \<in> {''sentences'', ''tokens''} \<and> d = np_bytes \<and> x = SBytes []
         \<or> k \<in> {''logprob'', ''full_logprob''} \<and> d = np_single \<and> x = SFloat 0
         \<or> k \<in> {''token_ids'', ''offsets''} \<and> d = np_int \<and> x = SInt 0)
      \<and> \<lparr>name = k, shape = [- 1], dtype = d, optional = False\<rparr>
          \<in> set (case get_triton_output of Inr ts \<Rightarrow> ts | Inl e \<Rightarrow> [])"
  proof (intro exI conjI)
    show "map_of mo ''sentences'' = Some sentences" by (rule s)
    show "np_shape sentences = Inr sh" by (rule n)
    show "\<forall>ss. sentences = PList (map PStr ss) \<longrightarrow> sh = [length ss]" by (rule len)
    show "map_of out k =
          Some \<lparr>nd_dtype = d, nd_shape = sh, nd_data = replicate (prod_list sh) x\<rparr>"
      by (rule o)
    show "k \<in> {''sentences'', ''tokens''} \<and> d = np_bytes \<and> x = SBytes []
         \<or> k \<in> {''logprob'', ''full_logprob''} \<and> d = np_single \<and> x = SFloat 0
         \<or> k \<in> {''token_ids'', ''offsets''} \<and> d = np_int \<and> x = SInt 0"
      using kind unfolding kind_def .
    show "\<lparr>name = k, shape = [- 1], dtype = d, optional = False\<rparr>
          \<in> set (case get_triton_output of Inr ts \<Rightarrow> ts | Inl e \<Rightarrow> [])"
      by (rule schema)
  qed
next
  assume "k' \<in> {''sentences'', ''tokens'', ''logprob'', ''full_logprob'', ''token_ids'', ''offsets''}
      \<and> map_of mo' ''sentences'' = Some sentences' \<and> np_shape sentences' = Inr sh'"
  then show "\<exists>d x. triton_output_field mo' k' PNone =
                Inr \<lparr>nd_dtype = d, nd_shape = sh', nd_data = replicate (prod_list sh') x\<rparr>
            \<and> (k' \<in> {''sentences'', ''tokens''} \<and> d = np_bytes \<and> x = SBytes []
               \<or> k' \<in> {''logprob'', ''full_logprob''} \<and> d = np_single \<and> x = SFloat 0
               \<or> k' \<in> {''token_ids'', ''offsets''} \<and> d = np_int \<and> x = SInt 0)"
    using null_field_array [of k' mo' sentences' sh'] by simp
next
  show "np_shape (PList (map PStr ss')) = Inr [length ss']"
    by (rule np_shape_strings)
qed

text \<open>The theorem at the field \<^verbatim>\<open>full_logprob\<close> of a batch of three prompts, which the
  example model leaves \<^verbatim>\<open>None\<close>: the response holds \<^verbatim>\<open>0.0\<close> three times; and at the
  field \<^verbatim>\<open>tokens\<close>, a text field, for a result whose \<^verbatim>\<open>sentences\<close> is \<^verbatim>\<open>None\<close> too, so
  that the shape is \<open>()\<close>.\<close>

theorem null_field_filled_witness:
  "triton_infer_fn text_instance [] [] three_request = Inr three_response
   \<and> model_output_of text_instance [] [] three_request = Inr three_model_output
   \<and> distinct (map fst three_model_output)
   \<and> (''full_logprob'', PNone) \<in> set three_model_output
   \<and> map_of three_model_output ''sentences''
       = Some (PList (map PStr [[72, 105], [89, 111], [79, 107]]))
   \<and> np_shape (PList (map PStr [[72, 105], [89, 111], [79, 107]])) = Inr [3]
   \<and> map_of three_response ''full_logprob''
       = Some \<lparr>nd_dtype = np_single, nd_shape = [3], nd_data = replicate 3 (SFloat 0)\<rparr>
   \<and> ''tokens'' \<in> {''sentences'', ''tokens'', ''logprob'', ''full_logprob'', ''token_ids'',
                     ''offsets''}
   \<and> map_of [(''sentences'', PNone), (''tokens'', PNone)] ''sentences'' = Some PNone
   \<and> np_shape PNone = Inr []
   \<and> triton_output_field [(''sentences'', PNone), (''tokens'', PNone)] ''tokens'' PNone
       = Inr \<lparr>nd_dtype = np_bytes, nd_shape = [], nd_data = [SBytes []]\<rparr>"
  using null_field_filled
    [where self = text_instance and sdef = "[]" and ldef = "[]" and inputs = three_request
       and out = three_response and mo = three_model_output and k = "''full_logprob''"
       and k' = "''tokens''" and mo' = "[(''sentences'', PNone), (''tokens'', PNone)]"
       and sentences' = PNone and sh' = "[]" and ss' = "[[72, 105], [89, 111], [79, 107]]"]
  by (simp add: three_response_eq three_output)
     (simp add: three_response_def three_model_output_def numeral_3_eq_3 eval_defs)

lemma foldl_promote_single:
  "list_all (\<lambda>d. d = np_single) ds \<Longrightarrow> foldl promote np_single ds = np_single"
  by (induction ds) simp_all

lemma result_type_single:
  "ds \<noteq> [] \<Longrightarrow> list_all (\<lambda>d. d = np_single) ds \<Longrightarrow> result_type ds = np_single"
  by (cases ds) (simp_all add: result_type_def foldl_promote_single)

lemma np_array_arrays:
  assumes ne: "arrs \<noteq> []"
  shows "np_array (PList (map PArray arrs)) =
           (if list_all (\<lambda>a. nd_shape a = nd_shape (hd arrs)) arrs
            then Inr \<lparr>nd_dtype = result_type (map nd_dtype arrs),
                      nd_shape = length arrs # nd_shape (hd arrs),
                      nd_data = concat (map nd_data arrs)\<rparr>
            else Inl ValueError)"
proof -
  from ne obtain a rest where arrs: "arrs = a # rest" by (cases arrs) auto
  have sq: "sequence (map nested_shape (map PArray arrs)) = Inr (map nd_shape arrs)"
    using sequence_map_Inr [of nd_shape arrs] by (simp add: comp_def)
  have ns: "nested_shape (PList (map PArray arrs)) =
              (if list_all (\<lambda>a. nd_shape a = nd_shape (hd arrs)) arrs
               then Inr (length arrs # nd_shape (hd arrs)) else Inl ValueError)"
  proof -
    have "nested_shape (PList (map PArray arrs)) =
            and_then (sequence (map nested_shape (map PArray arrs))) (\<lambda>ss.
               if list_all (\<lambda>s. s = hd ss) ss then Inr (length (map PArray arrs) # hd ss)
               else Inl ValueError)"
      by (rule nested_shape_list) (simp add: arrs)
    also have "\<dots> = (if list_all (\<lambda>s. s = hd (map nd_shape arrs)) (map nd_shape arrs)
                     then Inr (length arrs # hd (map nd_shape arrs)) else Inl ValueError)"
      by (simp only: sq and_then_Inr length_map)
    also have "\<dots> = (if list_all (\<lambda>a. nd_shape a = nd_shape (hd arrs)) arrs
               then Inr (length arrs # nd_shape (hd arrs)) else Inl ValueError)"
      by (simp add: arrs list_all_iff)
    finally show ?thesis .
  qed
  have lv: "leaves (PList (map PArray arrs)) = concat (map nd_data arrs)"
    by (simp add: comp_def)
  have ld: "leaf_dtypes (PList (map PArray arrs)) = map nd_dtype arrs"
    by (induction arrs) simp_all
  show ?thesis
    by (simp only: np_array_def ns lv ld) simp
qed

lemma upcast_to_numpy:
  "tensor_numpy (tensor_float (tensor_cpu t)) =
     Inr \<lparr>nd_dtype = np_single, nd_shape = t_shape t, nd_data = map SFloat (t_data t)\<rparr>"
  by (simp add: tensor_numpy_def tensor_float_def tensor_cpu_def)

lemma bfloat16_not_numpy:
  "t_dtype t = bfloat16 \<Longrightarrow> tensor_numpy (tensor_cpu t) = Inl TypeError"
  by (simp add: tensor_numpy_def tensor_cpu_def)

text \<open>Claim C8. Let the value of a field that is not a byte-string field be a non-empty list
  of bfloat16 tensors. Every tensor is moved to the host and turned to single precision
  before \<^verbatim>\<open>numpy()\<close> converts it, which then succeeds with the element type
  \<^verbatim>\<open>np.single\<close> and the tensor's elements; the field's array is \<^verbatim>\<open>np.array\<close> of these
  arrays, and in a call that returns normally it is the single-precision array that stacks
  them.\<close>

theorem bfloat16_upcast:
  assumes num: "k \<in> {''logprob'', ''full_logprob'', ''token_ids'', ''offsets''}"
    and ne: "ts \<noteq> []"
    and bf: "list_all (\<lambda>t. t_dtype t = bfloat16) ts"
  shows "list_all (\<lambda>t. tensor_numpy (tensor_float (tensor_cpu t)) =
                        Inr \<lparr>nd_dtype = np_single, nd_shape = t_shape t,
                             nd_data = map SFloat (t_data t)\<rparr>) ts
       \<and> triton_output_field mo k (PList (map PTensor ts)) =
           np_array (PList (map (\<lambda>t. PArray \<lparr>nd_dtype = np_single, nd_shape = t_shape t,
                                              nd_data = map SFloat (t_data t)\<rparr>) ts))
       \<and> (triton_infer_fn self sdef ldef inputs = Inr out
            \<and> model_output_of self sdef ldef inputs = Inr mo
            \<and> distinct (map fst mo) \<and> (k, PList (map PTensor ts)) \<in> set mo \<longrightarrow>
          map_of out k =
            Some \<lparr>nd_dtype = np_single, nd_shape = length ts # t_shape (hd ts),
                  nd_data = concat (map (\<lambda>t. map SFloat (t_data t)) ts)\<rparr>)"
proof -
  define conv where "conv = (\<lambda>t :: torch_tensor. \<lparr>nd_dtype = np_single, nd_shape = t_shape t,
                                   nd_data = map SFloat (t_data t)\<rparr>)"
  from ne obtain t0 rest where ts: "ts = t0 # rest" by (cases ts) auto
  with bf have t0: "t_dtype t0 = bfloat16" by simp
  have each: "list_all (\<lambda>t. tensor_numpy (tensor_float (tensor_cpu t)) = Inr (conv t)) ts"
    by (simp add: list_all_iff upcast_to_numpy conv_def)
  from num obtain blank d where b: "blank_field k = Inr blank"
    and g: "GetNumpyDtype blank = Inr d" and d: "d \<noteq> np_bytes"
    by (auto simp: blank_field_def BLANK_OUTPUTTYPE_def dict_getitem_def GetNumpyDtype_simps
        py_to_numpy_mapping_def)
  have fe: "for_each (\<lambda>entry. case entry of
                                  PTensor t \<Rightarrow> tensor_numpy (tensor_float (tensor_cpu t))
                                | _ \<Rightarrow> Inl AttributeError) (map PTensor ts)
            = Inr (map conv ts)"
    by (induction ts) (simp_all add: upcast_to_numpy conv_def)
  have field: "triton_output_field mo k (PList (map PTensor ts))
               = np_array (PList (map PArray (map conv ts)))"
  proof -
    have gi: "py_getitem0 (PList (map PTensor ts)) = Inr (PTensor t0)"
      by (simp add: ts)
    show ?thesis
      unfolding triton_output_field_def by (simp add: b g d fe gi t0)
  qed
  have field': "triton_output_field mo k (PList (map PTensor ts))
               = np_array (PList (map (\<lambda>t. PArray (conv t)) ts))"
    using field by (simp add: comp_def)
  have out: "map_of out k =
            Some \<lparr>nd_dtype = np_single, nd_shape = length ts # t_shape (hd ts),
                  nd_data = concat (map (\<lambda>t. map SFloat (t_data t)) ts)\<rparr>"
    if run: "triton_infer_fn self sdef ldef inputs = Inr out"
      and mo: "model_output_of self sdef ldef inputs = Inr mo"
      and dist: "distinct (map fst mo)" and mem: "(k, PList (map PTensor ts)) \<in> set mo"
  proof -
    from run mo have loop: "triton_output_loop mo mo [] = Inr out"
      by (simp add: triton_infer_fn_def)
    from triton_output_loop_field [OF loop dist mem] obtain arr where
      f: "triton_output_field mo k (PList (map PTensor ts)) = Inr arr"
      and o: "map_of out k = Some arr" by blast
    have ne': "map conv ts \<noteq> []" using ne by simp
    from f field have "np_array (PList (map PArray (map conv ts))) = Inr arr" by simp
    then have "arr = \<lparr>nd_dtype = result_type (map nd_dtype (map conv ts)),
                      nd_shape = length (map conv ts) # nd_shape (hd (map conv ts)),
                      nd_data = concat (map nd_data (map conv ts))\<rparr>"
      unfolding np_array_arrays [OF ne'] by (simp split: if_splits)
    moreover have "result_type (map nd_dtype (map conv ts)) = np_single"
      by (rule result_type_single) (simp_all add: ne conv_def list_all_iff)
    moreover have "nd_shape (hd (map conv ts)) = t_shape (hd ts)"
      by (simp add: ts conv_def)
    moreover have "concat (map nd_data (map conv ts)) = concat (map (\<lambda>t. map SFloat (t_data t)) ts)"
      by (simp add: conv_def comp_def)
    ultimately show ?thesis using o by simp
  qed
  from each field' out show ?thesis unfolding conv_def by blast
qed

text \<open>The theorem at the field \<^verbatim>\<open>logprob\<close>, for which the example model returns one
  bfloat16 tensor on the accelerator.\<close>

theorem bfloat16_upcast_witness:
  "''logprob'' \<in> {''logprob'', ''full_logprob'', ''token_ids'', ''offsets''}
   \<and> [\<lparr>t_dtype = bfloat16, t_device = cuda, t_shape = [2], t_data = [- 1, - 0.5]\<rparr>] \<noteq> []
   \<and> list_all (\<lambda>t. t_dtype t = bfloat16)
        [\<lparr>t_dtype = bfloat16, t_device = cuda, t_shape = [2], t_data = [- 1, - 0.5]\<rparr>]
   \<and> triton_infer_fn echo_instance [] [] hi_request = Inr hi_response
   \<and> model_output_of echo_instance [] [] hi_request = Inr hi_model_output
   \<and> distinct (map fst hi_model_output)
   \<and> (''logprob'',
       PList (map PTensor
         [\<lparr>t_dtype = bfloat16, t_device = cuda, t_shape = [2], t_data = [- 1, - 0.5]\<rparr>]))
      \<in> set hi_model_output
   \<and> map_of hi_response ''logprob''
       = Some \<lparr>nd_dtype = np_single, nd_shape = [1, 2],
               nd_data = [SFloat (- 1), SFloat (- 0.5)]\<rparr>"
  using bfloat16_upcast
    [where k = "''logprob''"
       and ts = "[\<lparr>t_dtype = bfloat16, t_device = cuda, t_shape = [2], t_data = [- 1, - 0.5]\<rparr>]"
       and self = echo_instance and sdef = "[]" and ldef = "[]" and inputs = hi_request
       and out = hi_response and mo = hi_model_output]
  by (simp add: echo_response echo_output)
     (simp add: hi_response_def hi_model_output_def)

section \<open>The encoding round trip\<close>

lemma unat_byte: "n < 256 \<Longrightarrow> unat (of_nat n :: 8 word) = n"
  by (simp add: unat_of_nat)

lemma shift6: "((a::nat) * 64 + b) * 64 = a * 4096 + b * 64"
  by (simp add: algebra_simps)

lemma shift12: "((a::nat) * 64 + b) * 4096 = a * 262144 + b * 4096"
  by (simp add: algebra_simps)

lemma split3: "(c::nat) div 4096 * 4096 + c div 64 mod 64 * 64 + c mod 64 = c"
proof -
  have q: "c div 4096 = c div 64 div 64" by (simp add: div_mult2_eq)
  have "c div 64 div 64 * 4096 + c div 64 mod 64 * 64 = (c div 64 div 64 * 64 + c div 64 mod 64) * 64"
    by (rule shift6 [symmetric])
  also have "\<dots> = c div 64 * 64" by simp
  finally show ?thesis by (simp add: q)
qed

lemma split4:
  "(c::nat) div 262144 * 262144 + c div 4096 mod 64 * 4096 + c div 64 mod 64 * 64 + c mod 64 = c"
proof -
  have q: "c div 262144 = c div 4096 div 64" by (simp add: div_mult2_eq)
  have "c div 4096 div 64 * 262144 + c div 4096 mod 64 * 4096
             = (c div 4096 div 64 * 64 + c div 4096 mod 64) * 4096"
    by (rule shift12 [symmetric])
  also have "\<dots> = c div 4096 * 4096" by simp
  finally have "c div 262144 * 262144 + c div 4096 mod 64 * 4096 = c div 4096 * 4096"
    by (simp add: q)
  with split3 [of c] show ?thesis by simp
qed

lemma utf8_decode_1_byte:
  "unat b0 < 0x80 \<Longrightarrow>
   utf8_decode (b0 # rest) = and_then (utf8_decode rest) (\<lambda>cs. Inr (unat b0 # cs))"
  by (subst utf8_decode.simps) (simp del: utf8_decode.simps)

lemma utf8_decode_2_bytes:
  "0xC2 \<le> unat b0 \<Longrightarrow> unat b0 < 0xE0 \<Longrightarrow> continuation b1 \<Longrightarrow>
   utf8_decode (b0 # b1 # rest) =
     and_then (utf8_decode rest) (\<lambda>cs. Inr (((unat b0 - 0xC0) * 64 + (unat b1 - 0x80)) # cs))"
  by (subst utf8_decode.simps) (simp del: utf8_decode.simps)

lemma utf8_decode_3_bytes:
  "0xE0 \<le> unat b0 \<Longrightarrow> unat b0 < 0xF0 \<Longrightarrow> continuation b1 \<Longrightarrow> continuation b2 \<Longrightarrow>
   c = (unat b0 - 0xE0) * 4096 + (unat b1 - 0x80) * 64 + (unat b2 - 0x80) \<Longrightarrow>
   0x800 \<le> c \<Longrightarrow> is_scalar_value c \<Longrightarrow>
   utf8_decode (b0 # b1 # b2 # rest) = and_then (utf8_decode rest) (\<lambda>cs. Inr (c # cs))"
  by (subst utf8_decode.simps) (simp del: utf8_decode.simps)

lemma utf8_decode_4_bytes:
  "0xF0 \<le> unat b0 \<Longrightarrow> unat b0 < 0xF5 \<Longrightarrow> continuation b1 \<Longrightarrow> continuation b2 \<Longrightarrow>
   continuation b3 \<Longrightarrow>
   c = (unat b0 - 0xF0) * 262144 + (unat b1 - 0x80) * 4096 + (unat b2 - 0x80) * 64
       + (unat b3 - 0x80) \<Longrightarrow>
   0x10000 \<le> c \<Longrightarrow> c < 0x110000 \<Longrightarrow>
   utf8_decode (b0 # b1 # b2 # b3 # rest) = and_then (utf8_decode rest) (\<lambda>cs. Inr (c # cs))"
  by (subst utf8_decode.simps) (simp del: utf8_decode.simps)

lemma utf8_decode_encode_char:
  assumes enc: "utf8_encode_char c = Inr bs"
  shows "utf8_decode (bs @ rest) = and_then (utf8_decode rest) (\<lambda>cs. Inr (c # cs))"
proof -
  consider "c < 0x80" | "0x80 \<le> c" "c < 0x800" | "0x800 \<le> c" "c < 0x10000"
    | "0x10000 \<le> c" "c < 0x110000" | "0x110000 \<le> c"
    by linarith
  then show ?thesis
  proof cases
    case 1
    define B0 :: "8 word" where "B0 = of_nat c"
    have b0: "unat B0 = c" unfolding B0_def using 1 by (intro unat_byte) simp
    from enc 1 have bs: "bs = [B0]" by (simp add: utf8_encode_char_def B0_def)
    from 1 have "unat B0 < 0x80" by (simp add: b0)
    from utf8_decode_1_byte [OF this, of rest] show ?thesis by (simp add: bs b0)
  next
    case 2
    define B0 :: "8 word" where "B0 = of_nat (0xC0 + c div 64)"
    define B1 :: "8 word" where "B1 = of_nat (0x80 + c mod 64)"
    have b0: "unat B0 = 0xC0 + c div 64" unfolding B0_def using 2 by (intro unat_byte) simp
    have b1: "unat B1 = 0x80 + c mod 64" unfolding B1_def by (intro unat_byte) simp
    from enc 2 have bs: "bs = [B0, B1]" by (simp add: utf8_encode_char_def B0_def B1_def)
    have "0xC2 \<le> unat B0" "unat B0 < 0xE0" "continuation B1"
      using 2 by (simp_all add: b0 b1 continuation_def)
    from utf8_decode_2_bytes [OF this, of rest] show ?thesis by (simp add: bs b0 b1)
  next
    case 3
    define B0 :: "8 word" where "B0 = of_nat (0xE0 + c div 4096)"
    define B1 :: "8 word" where "B1 = of_nat (0x80 + c div 64 mod 64)"
    define B2 :: "8 word" where "B2 = of_nat (0x80 + c mod 64)"
    have b0: "unat B0 = 0xE0 + c div 4096" unfolding B0_def using 3 by (intro unat_byte) simp
    have b1: "unat B1 = 0x80 + c div 64 mod 64" unfolding B1_def by (intro unat_byte) simp
    have b2: "unat B2 = 0x80 + c mod 64" unfolding B2_def by (intro unat_byte) simp
    from enc 3 have sv: "is_scalar_value c"
      by (auto simp: utf8_encode_char_def is_scalar_value_def split: if_splits)
    from enc 3 have bs: "bs = [B0, B1, B2]"
      by (auto simp: utf8_encode_char_def B0_def B1_def B2_def split: if_splits)
    have c: "c = (unat B0 - 0xE0) * 4096 + (unat B1 - 0x80) * 64 + (unat B2 - 0x80)"
      using split3 [of c] by (simp add: b0 b1 b2)
    have "0xE0 \<le> unat B0" "unat B0 < 0xF0" "continuation B1" "continuation B2"
      using 3 by (simp_all add: b0 b1 b2 continuation_def)
    from utf8_decode_3_bytes [OF this c 3(1) sv, of rest] show ?thesis by (simp add: bs)
  next
    case 4
    define B0 :: "8 word" where "B0 = of_nat (0xF0 + c div 262144)"
    define B1 :: "8 word" where "B1 = of_nat (0x80 + c div 4096 mod 64)"
    define B2 :: "8 word" where "B2 = of_nat (0x80 + c div 64 mod 64)"
    define B3 :: "8 word" where "B3 = of_nat (0x80 + c mod 64)"
    have b0: "unat B0 = 0xF0 + c div 262144" unfolding B0_def using 4 by (intro unat_byte) simp
    have b1: "unat B1 = 0x80 + c div 4096 mod 64" unfolding B1_def by (intro unat_byte) simp
    have b2: "unat B2 = 0x80 + c div 64 mod 64" unfolding B2_def by (intro unat_byte) simp
    have b3: "unat B3 = 0x80 + c mod 64" unfolding B3_def by (intro unat_byte) simp
    from enc 4 have bs: "bs = [B0, B1, B2, B3]"
      by (simp add: utf8_encode_char_def B0_def B1_def B2_def B3_def)
    have c: "c = (unat B0 - 0xF0) * 262144 + (unat B1 - 0x80) * 4096 + (unat B2 - 0x80) * 64
               + (unat B3 - 0x80)"
      using split4 [of c] by (simp add: b0 b1 b2 b3)
    have "0xF0 \<le> unat B0" "unat B0 < 0xF5" "continuation B1" "continuation B2" "continuation B3"
      using 4 by (simp_all add: b0 b1 b2 b3 continuation_def)
    from utf8_decode_4_bytes [OF this c 4] show ?thesis by (simp add: bs)
  next
    case 5
    with enc show ?thesis by (simp add: utf8_encode_char_def)
  qed
qed

lemma utf8_encode_char_total:
  "is_scalar_value c \<Longrightarrow> \<exists>bs. utf8_encode_char c = Inr bs"
  by (auto simp: utf8_encode_char_def is_scalar_value_def)

lemma utf8_encode_char_scalar:
  "utf8_encode_char c = Inr bs \<Longrightarrow> is_scalar_value c"
  by (auto simp: utf8_encode_char_def is_scalar_value_def split: if_splits)

lemma utf8_encode_Cons:
  "utf8_encode (c # cs) =
     and_then (utf8_encode_char c) (\<lambda>b. and_then (utf8_encode cs) (\<lambda>bs. Inr (b @ bs)))"
  by (cases "utf8_encode_char c"; cases "for_each utf8_encode_char cs")
     (simp_all add: utf8_encode_def)

lemma utf8_encode_Nil: "utf8_encode [] = Inr []"
  by (simp add: utf8_encode_def)

lemma utf8_decode_encode:
  "utf8_encode s = Inr bs \<Longrightarrow> utf8_decode bs = Inr s"
proof (induction s arbitrary: bs)
  case Nil
  then show ?case by (simp add: utf8_encode_Nil)
next
  case (Cons c cs)
  from Cons.prems obtain b bs' where b: "utf8_encode_char c = Inr b"
    and bs': "utf8_encode cs = Inr bs'" and bs: "bs = b @ bs'"
    by (auto simp: utf8_encode_Cons and_then_eq_Inr)
  from Cons.IH [OF bs'] utf8_decode_encode_char [OF b, of bs'] bs show ?case by simp
qed

lemma utf8_encode_total:
  "list_all is_scalar_value s \<Longrightarrow> \<exists>bs. utf8_encode s = Inr bs"
proof (induction s)
  case Nil
  then show ?case by (simp add: utf8_encode_Nil)
next
  case (Cons c cs)
  then obtain b bs where "utf8_encode_char c = Inr b" "utf8_encode cs = Inr bs"
    using utf8_encode_char_total [of c] by auto
  then show ?case by (simp add: utf8_encode_Cons)
qed

lemma cast_output_strings:
  "cast_output (PList (map PStr xs)) np_bytes =
     and_then (for_each utf8_encode xs) (\<lambda>bs.
       Inr \<lparr>nd_dtype = np_bytes, nd_shape = [length xs], nd_data = map SBytes bs\<rparr>)"
proof -
  have fe: "for_each encode_element (map SStr xs) =
            and_then (for_each utf8_encode xs) (\<lambda>bs. Inr (map SBytes bs))"
  proof (induction xs)
    case Nil
    show ?case by simp
  next
    case (Cons x xs)
    show ?case
      by (cases "utf8_encode x"; cases "for_each utf8_encode xs") (simp_all add: Cons)
  qed
  show ?thesis
    by (cases "for_each utf8_encode xs") (simp_all add: cast_output_def np_array_strings fe)
qed

lemma decode_encoded:
  "for_each utf8_encode xs = Inr bs \<Longrightarrow> for_each decode_element (map SBytes bs) = Inr xs"
proof (induction xs arbitrary: bs)
  case Nil
  then show ?case by simp
next
  case (Cons x xs)
  from Cons.prems obtain b bs' where b: "utf8_encode x = Inr b"
    and bs': "for_each utf8_encode xs = Inr bs'" and bs: "bs = b # bs'"
    by (auto simp: and_then_eq_Inr)
  from Cons.IH [OF bs'] utf8_decode_encode [OF b] bs show ?case by simp
qed

lemma for_each_encode_total:
  "list_all (list_all is_scalar_value) xs \<Longrightarrow> \<exists>bs. for_each utf8_encode xs = Inr bs"
proof (induction xs)
  case Nil
  then show ?case by simp
next
  case (Cons x xs)
  then obtain b bs where "utf8_encode x = Inr b" "for_each utf8_encode xs = Inr bs"
    using utf8_encode_total [of x] by auto
  then show ?case by simp
qed

lemma sentences_branch:
  "v \<noteq> PNone \<Longrightarrow> triton_output_field mo ''sentences'' v = cast_output v np_bytes"
  by (simp add: triton_output_field_def blank_field_def BLANK_OUTPUTTYPE_def dict_getitem_def
      GetNumpyDtype_simps)

text \<open>Claim C9. For a list of strings the byte-string branch of the adapter (the field
  \<^verbatim>\<open>sentences\<close>) is \<^verbatim>\<open>cast_output\<close> with the byte-string type. Whenever that cast
  returns an array, decoding the array gives the original list of strings; and the cast
  returns an array for every list of strings of Unicode scalar values, the code points
  that UTF-8 encodes.\<close>

theorem string_roundtrip:
  "triton_output_field mo ''sentences'' (PList (map PStr xs))
     = cast_output (PList (map PStr xs)) np_bytes
   \<and> (cast_output (PList (map PStr xs)) np_bytes = Inr arr \<longrightarrow> str_ndarray2list arr = Inr xs)
   \<and> (list_all (list_all is_scalar_value) xs \<longrightarrow>
        (\<exists>a. cast_output (PList (map PStr xs)) np_bytes = Inr a))"
proof (intro conjI impI)
  show "triton_output_field mo ''sentences'' (PList (map PStr xs))
          = cast_output (PList (map PStr xs)) np_bytes"
    by (rule sentences_branch) simp
next
  assume "cast_output (PList (map PStr xs)) np_bytes = Inr arr"
  then obtain bs where bs: "for_each utf8_encode xs = Inr bs"
    and arr: "arr = \<lparr>nd_dtype = np_bytes, nd_shape = [length xs], nd_data = map SBytes bs\<rparr>"
    by (auto simp: cast_output_strings and_then_eq_Inr)
  from decode_encoded [OF bs] arr show "str_ndarray2list arr = Inr xs"
    by (simp add: str_ndarray2list_def)
next
  assume "list_all (list_all is_scalar_value) xs"
  from for_each_encode_total [OF this] obtain bs where "for_each utf8_encode xs = Inr bs" ..
  then show "\<exists>a. cast_output (PList (map PStr xs)) np_bytes = Inr a"
    by (simp add: cast_output_strings)
qed

text \<open>The theorem at a string with a code point of each encoded length and the empty
  string.\<close>

theorem string_roundtrip_witness:
  "cast_output (PList (map PStr [[72, 233, 8364, 128512], []])) np_bytes
     = Inr \<lparr>nd_dtype = np_bytes, nd_shape = [2],
            nd_data = [SBytes [72, 195, 169, 226, 130, 172, 240, 159, 152, 128], SBytes []]\<rparr>
   \<and> list_all (list_all is_scalar_value) [[72, 233, 8364, 128512], []]
   \<and> str_ndarray2list
       \<lparr>nd_dtype = np_bytes, nd_shape = [2],
        nd_data = [SBytes [72, 195, 169, 226, 130, 172, 240, 159, 152, 128], SBytes []]\<rparr>
     = Inr [[72, 233, 8364, 128512], []]"
  using string_roundtrip
    [where mo = "[]" and xs = "[[72, 233, 8364, 128512], []]"
       and arr = "\<lparr>nd_dtype = np_bytes, nd_shape = [2],
                   nd_data = [SBytes [72, 195, 169, 226, 130, 172, 240, 159, 152, 128],
                              SBytes []]\<rparr>"]
  by (simp add: cast_output_def np_array_def result_type_def utf8_encode_def
      utf8_encode_char_def str_ndarray2list_def is_scalar_value_def continuation_def)

end
